theory Spec2Isabelle
  imports Complex_Main
begin

section \<open>JavaScript string primitives\<close>

text \<open>
  A JavaScript string is a sequence of UTF-16 code units. The model is \<open>string\<close>, whose
  characters are the code units below 256 (ASCII and Latin-1): every literal of the source
  is ASCII. \<open>trim\<close> removes the ECMAScript WhiteSpace and LineTerminator code units of that
  range (TAB, LF, VT, FF, CR, SP, NBSP), \<open>toLowerCase\<close> maps A-Z and the Latin-1 capitals
  (U+00C0 to U+00DE without the multiplication sign U+00D7) to their small letters.
\<close>

definition isWhiteSpace :: "char \<Rightarrow> bool" where
  "isWhiteSpace c =
     (c = CHR 0x09 \<or> c = CHR 0x0A \<or> c = CHR 0x0B \<or> c = CHR 0x0C \<or> c = CHR 0x0D
      \<or> c = CHR 0x20 \<or> c = CHR 0xA0)"

definition trim :: "string \<Rightarrow> string" where
  "trim s = rev (dropWhile isWhiteSpace (rev (dropWhile isWhiteSpace s)))"

definition toLowerChar :: "char \<Rightarrow> char" where
  "toLowerChar c =
     (let n = (of_char c :: nat)
      in if (65 \<le> n \<and> n \<le> 90) \<or> (192 \<le> n \<and> n \<le> 222 \<and> n \<noteq> 215)
         then char_of (n + 32) else c)"

definition toLowerCase :: "string \<Rightarrow> string" where
  "toLowerCase s = map toLowerChar s"

text \<open>\<open>s.startsWith(p)\<close> and \<open>s.includes(p)\<close>.\<close>

fun startsWith :: "string \<Rightarrow> string \<Rightarrow> bool" where
  "startsWith s [] = True"
| "startsWith [] (p # ps) = False"
| "startsWith (c # cs) (p # ps) = (c = p \<and> startsWith cs ps)"

fun includesStr :: "string \<Rightarrow> string \<Rightarrow> bool" where
  "includesStr [] p = (p = [])"
| "includesStr (c # cs) p = (startsWith (c # cs) p \<or> includesStr cs p)"

text \<open>\<open>xs.join(sep)\<close> on an array of strings.\<close>

fun join :: "string \<Rightarrow> string list \<Rightarrow> string" where
  "join sep [] = []"
| "join sep [x] = x"
| "join sep (x # y # ys) = x @ sep @ join sep (y # ys)"

text \<open>A number inside a template string, for the natural numbers.\<close>

definition digitChar :: "nat \<Rightarrow> char" where
  "digitChar d = char_of (48 + d)"

fun showNat :: "nat \<Rightarrow> string" where
  "showNat n = (if n < 10 then [digitChar n] else showNat (n div 10) @ [digitChar (n mod 10)])"

section \<open>SecurityValidator\<close>

record validation =
  valid :: bool
  reason :: "string option"

definition MAX_TIMEOUT_MS :: nat where
  "MAX_TIMEOUT_MS = 30000"

definition MAX_BUFFER_SIZE :: nat where
  "MAX_BUFFER_SIZE = 10 * 1024 * 1024"

definition BLOCKED_GCP_COMMANDS :: "string list" where
  "BLOCKED_GCP_COMMANDS = [''auth'', ''config'', ''init'', ''beta'', ''alpha'']"

definition BLOCKED_AZURE_COMMANDS :: "string list" where
  "BLOCKED_AZURE_COMMANDS = [''login'', ''account'', ''config'']"

text \<open>
  The loop \<open>for (const blocked of LIST) if (normalizedCommand.startsWith(blocked)) return ...\<close>:
  the rejection of the first entry that matches, or \<open>None\<close> when the loop falls through.
\<close>

fun checkBlocked :: "string \<Rightarrow> string list \<Rightarrow> validation option" where
  "checkBlocked normalizedCommand [] = None"
| "checkBlocked normalizedCommand (blocked # rest) =
     (if startsWith normalizedCommand blocked
      then Some \<lparr>valid = False,
                 reason = Some (''Command blocked: '' @ blocked
                                @ '' commands are not allowed for security reasons'')\<rparr>
      else checkBlocked normalizedCommand rest)"

definition validateGcpCommand :: "string \<Rightarrow> validation" where
  "validateGcpCommand command =
     (if command = [] \<or> length (trim command) = 0
      then \<lparr>valid = False, reason = Some ''Empty command''\<rparr>
      else let normalizedCommand = toLowerCase (trim command)
           in case checkBlocked normalizedCommand BLOCKED_GCP_COMMANDS of
                Some rejection \<Rightarrow> rejection
              | None \<Rightarrow>
                  if includesStr normalizedCommand ''--format''
                     \<and> includesStr normalizedCommand ''eval''
                  then \<lparr>valid = False,
                        reason = Some ''Potentially dangerous format evaluation detected''\<rparr>
                  else \<lparr>valid = True, reason = None\<rparr>)"

definition validateAzureCommand :: "string \<Rightarrow> validation" where
  "validateAzureCommand command =
     (if command = [] \<or> length (trim command) = 0
      then \<lparr>valid = False, reason = Some ''Empty command''\<rparr>
      else let normalizedCommand = toLowerCase (trim command)
           in case checkBlocked normalizedCommand BLOCKED_AZURE_COMMANDS of
                Some rejection \<Rightarrow> rejection
              | None \<Rightarrow> \<lparr>valid = True, reason = None\<rparr>)"

definition getMaxTimeout :: nat where
  "getMaxTimeout = MAX_TIMEOUT_MS"

definition getMaxBufferSize :: nat where
  "getMaxBufferSize = MAX_BUFFER_SIZE"


section \<open>JavaScript values at the boundary\<close>

text \<open>
  Structured data exchanged with the platform and the cloud SDKs. \<open>JUndefined\<close> is the
  value of a property that is not there.
\<close>

datatype json =
    JUndefined
  | JNull
  | JBool bool
  | JNum int
  | JStr string
  | JArr "json list"
  | JObj "(string \<times> json) list"

text \<open>
  \<open>error.code\<close> of a failed \<open>child_process.exec\<close> is the exit status (a number), or a
  string such as \<open>ENOENT\<close> or \<open>ERR_CHILD_PROCESS_STDIO_MAXBUFFER\<close>; it is absent
  (\<open>None\<close>) when the process was killed by a signal, as on a timeout.
\<close>

datatype code = Num int | Str string

text \<open>
  A JavaScript number in the argument object of a tool call. It arrives as JSON, so it is
  a finite double, which is a rational number; the model takes every rational. The
  comparisons the handlers make with it are exact on both.
\<close>

type_synonym number = rat

text \<open>\<open>a || d\<close> for a string (or undefined) \<open>a\<close>, and for an exit code.\<close>

definition strOr :: "string option \<Rightarrow> string \<Rightarrow> string" where
  "strOr a d = (case a of None \<Rightarrow> d | Some s \<Rightarrow> if s = [] then d else s)"

definition codeOr :: "code option \<Rightarrow> code \<Rightarrow> code" where
  "codeOr a d =
     (case a of
        None \<Rightarrow> d
      | Some (Num n) \<Rightarrow> if n = 0 then d else Num n
      | Some (Str s) \<Rightarrow> if s = [] then d else Str s)"

text \<open>Truthiness of an optional string: \<open>if (x)\<close>, and \<open>!x\<close> is its negation.\<close>

definition truthy :: "string option \<Rightarrow> bool" where
  "truthy a = (case a of None \<Rightarrow> False | Some s \<Rightarrow> s \<noteq> [])"

section \<open>External collaborators\<close>

record exec_error =
  err_stdout :: "string option"
  err_stderr :: "string option"
  err_message :: "string option"
  err_code :: "code option"

text \<open>The promise of \<open>execAsync\<close>: resolved with the two outputs, or rejected with an error.\<close>

datatype exec_outcome =
    Resolved "string option" "string option"
  | Rejected exec_error

text \<open>
  An asynchronous enumeration as the \<open>for await\<close> loop sees it: it yields an item and
  goes on, ends, or throws (the message of the error). Enumerations are finite.
\<close>

datatype 'a async_iter = End | Throw string | Yield 'a "'a async_iter"

datatype gcs_client = Storage "string option"

record bucket_metadata =
  location :: json
  timeCreated :: json
  bucket_updated :: json

record bucket =
  bucket_name :: string
  bucket_meta :: "bucket_metadata option"

record file_metadata =
  file_size :: json
  file_contentType :: json
  file_updated :: json

record gcs_file =
  file_name :: string
  file_meta :: file_metadata

datatype credential = StorageSharedKeyCredential string string | DefaultAzureCredential

record blob_service_client =
  accountUrl :: string
  client_credential :: credential

record container_properties =
  cp_lastModified :: json
  cp_etag :: json

record container_item =
  container_name :: string
  container_metadata :: json
  container_props :: "container_properties option"

record blob_item_properties =
  bp_contentLength :: json
  bp_contentType :: json
  bp_lastModified :: json
  bp_etag :: json

record blob_item =
  blob_name :: string
  blob_props :: blob_item_properties

record blob_properties =
  contentType :: json
  contentLength :: json
  lastModified :: json
  etag :: json
  metadata :: json
  blobType :: json
  accessTier :: json

text \<open>
  Everything outside the repository that the code calls, over a world \<open>'w\<close> that every
  call may read and change: the child process runner (invocation, timeout, buffer cap),
  the JSON library, the Google Cloud Storage client and the Azure Blob Storage client.
  A call that throws returns \<open>Inl\<close> of the error's message.
\<close>

record 'w env =
  execAsync :: "string \<Rightarrow> nat \<Rightarrow> nat \<Rightarrow> 'w \<Rightarrow> exec_outcome \<times> 'w"
  stringify :: "json \<Rightarrow> string"
  parse :: "string \<Rightarrow> json option"
  newStorage :: "string option \<Rightarrow> string + gcs_client"
  getBuckets :: "gcs_client \<Rightarrow> 'w \<Rightarrow> (string + bucket list) \<times> 'w"
  getFiles :: "gcs_client \<Rightarrow> string \<Rightarrow> string \<Rightarrow> number \<Rightarrow> 'w \<Rightarrow> (string + gcs_file list) \<times> 'w"
  download :: "gcs_client \<Rightarrow> string \<Rightarrow> string \<Rightarrow> number \<Rightarrow> number \<Rightarrow> 'w \<Rightarrow> (string + string) \<times> 'w"
  getMetadata :: "gcs_client \<Rightarrow> string \<Rightarrow> string \<Rightarrow> 'w \<Rightarrow> (string + json) \<times> 'w"
  listContainers :: "blob_service_client \<Rightarrow> 'w \<Rightarrow> container_item async_iter \<times> 'w"
  listBlobsFlat :: "blob_service_client \<Rightarrow> string \<Rightarrow> string \<Rightarrow> 'w \<Rightarrow> blob_item async_iter \<times> 'w"
  blobDownload :: "blob_service_client \<Rightarrow> string \<Rightarrow> string \<Rightarrow> number \<Rightarrow> number \<Rightarrow> 'w \<Rightarrow> (string + string) \<times> 'w"
  getProperties :: "blob_service_client \<Rightarrow> string \<Rightarrow> string \<Rightarrow> 'w \<Rightarrow> (string + blob_properties) \<times> 'w"

section \<open>CommandExecutor\<close>

record CommandResult =
  stdout :: string
  stderr :: string
  exitCode :: code

text \<open>
  The \<open>try\<close>/\<open>catch\<close> around \<open>execAsync\<close>, the same in both methods: what the promise
  settled with becomes the result triple.
\<close>

definition toCommandResult :: "exec_outcome \<Rightarrow> CommandResult" where
  "toCommandResult outcome =
     (case outcome of
        Resolved out err \<Rightarrow>
          \<lparr>stdout = strOr out [], stderr = strOr err [], exitCode = Num 0\<rparr>
      | Rejected error \<Rightarrow>
          \<lparr>stdout = strOr (err_stdout error) [],
           stderr = strOr (err_stderr error) (strOr (err_message error) []),
           exitCode = codeOr (err_code error) (Num 1)\<rparr>)"

definition executeGcpCommand ::
  "'w env \<Rightarrow> string \<Rightarrow> string option \<Rightarrow> 'w \<Rightarrow> (string + CommandResult) \<times> 'w" where
  "executeGcpCommand env command projectId w =
     (let validation = validateGcpCommand command
      in if \<not> valid validation
         then (Inl (strOr (reason validation) ''Command validation failed''), w)
         else let fullCommand =
                    (case projectId of
                       None \<Rightarrow> ''gcloud '' @ command
                     | Some p \<Rightarrow>
                         if p = [] then ''gcloud '' @ command
                         else ''gcloud '' @ command @ '' --project='' @ p)
              in case execAsync env fullCommand getMaxTimeout getMaxBufferSize w of
                   (outcome, w') \<Rightarrow> (Inr (toCommandResult outcome), w'))"

definition executeAzureCommand ::
  "'w env \<Rightarrow> string \<Rightarrow> string option \<Rightarrow> 'w \<Rightarrow> (string + CommandResult) \<times> 'w" where
  "executeAzureCommand env command subscriptionId w =
     (let validation = validateAzureCommand command
      in if \<not> valid validation
         then (Inl (strOr (reason validation) ''Command validation failed''), w)
         else let fullCommand =
                    (case subscriptionId of
                       None \<Rightarrow> ''az '' @ command
                     | Some s \<Rightarrow>
                         if s = [] then ''az '' @ command
                         else ''az '' @ command @ '' --subscription '' @ s)
              in case execAsync env fullCommand getMaxTimeout getMaxBufferSize w of
                   (outcome, w') \<Rightarrow> (Inr (toCommandResult outcome), w'))"

section \<open>The gateway contract, by provider\<close>

text \<open>
  The contract speaks of one \<open>validate\<close> and one execution entry point that take the
  provider as an argument; the code has one method per provider. These definitions select
  the method, the denylist, the CLI program name and the scoping flag of a provider.
\<close>

datatype provider = GCP | Azure

definition denylist :: "provider \<Rightarrow> string list" where
  "denylist p = (case p of GCP \<Rightarrow> BLOCKED_GCP_COMMANDS | Azure \<Rightarrow> BLOCKED_AZURE_COMMANDS)"

definition validate :: "provider \<Rightarrow> string \<Rightarrow> validation" where
  "validate p command =
     (case p of GCP \<Rightarrow> validateGcpCommand command | Azure \<Rightarrow> validateAzureCommand command)"

definition execute ::
  "'w env \<Rightarrow> provider \<Rightarrow> string \<Rightarrow> string option \<Rightarrow> 'w \<Rightarrow> (string + CommandResult) \<times> 'w" where
  "execute env p command scopeId w =
     (case p of
        GCP \<Rightarrow> executeGcpCommand env command scopeId w
      | Azure \<Rightarrow> executeAzureCommand env command scopeId w)"

definition cliName :: "provider \<Rightarrow> string" where
  "cliName p = (case p of GCP \<Rightarrow> ''gcloud'' | Azure \<Rightarrow> ''az'')"

definition scopeFlag :: "provider \<Rightarrow> string \<Rightarrow> string" where
  "scopeFlag p scopeId =
     (case p of GCP \<Rightarrow> '' --project='' @ scopeId | Azure \<Rightarrow> '' --subscription '' @ scopeId)"

definition normalizeCommand :: "string \<Rightarrow> string" where
  "normalizeCommand command = toLowerCase (trim command)"

section \<open>Tool responses and arguments\<close>

record content_item =
  item_type :: string
  item_text :: string

text \<open>\<open>isError\<close> is optional in the source: \<open>None\<close> is a response that does not set it.\<close>

record ToolResponse =
  content :: "content_item list"
  isError :: "bool option"

text \<open>
  The argument object of a tool call. The handlers read each property with a type cast
  (\<open>args.command as string\<close>), so every property has the type of its cast and is absent
  (\<open>None\<close>) when the caller left it out. \<open>labels\<close> is an object of string values, kept as
  the list that \<open>Object.entries\<close> enumerates; \<open>maxResults\<close> and \<open>maxBytes\<close> are numbers,
  whole or not.
\<close>

record args =
  arg_command :: "string option"
  arg_projectId :: "string option"
  arg_subscriptionId :: "string option"
  arg_resourceGroup :: "string option"
  arg_bucketName :: "string option"
  arg_objectName :: "string option"
  arg_accountName :: "string option"
  arg_accountKey :: "string option"
  arg_containerName :: "string option"
  arg_blobName :: "string option"
  arg_prefix :: "string option"
  arg_zone :: "string option"
  arg_status :: "string option"
  arg_instance :: "string option"
  arg_machineType :: "string option"
  arg_labels :: "(string \<times> string) list option"
  arg_maxResults :: "number option"
  arg_maxBytes :: "number option"

text \<open>The empty argument object \<open>{}\<close>.\<close>

definition noArgs :: args where
  "noArgs =
     \<lparr>arg_command = None, arg_projectId = None, arg_subscriptionId = None,
      arg_resourceGroup = None, arg_bucketName = None, arg_objectName = None,
      arg_accountName = None, arg_accountKey = None, arg_containerName = None,
      arg_blobName = None, arg_prefix = None, arg_zone = None, arg_status = None,
      arg_instance = None, arg_machineType = None, arg_labels = None,
      arg_maxResults = None, arg_maxBytes = None\<rparr>"

text \<open>\<open>n || d\<close> for a number \<open>n\<close> that may be absent.\<close>

definition numOr :: "number option \<Rightarrow> number \<Rightarrow> number" where
  "numOr a d = (case a of None \<Rightarrow> d | Some n \<Rightarrow> if n = 0 then d else n)"

text \<open>A response of one text item.\<close>

definition textResponse :: "string \<Rightarrow> bool option \<Rightarrow> ToolResponse" where
  "textResponse t e = \<lparr>content = [\<lparr>item_type = ''text'', item_text = t\<rparr>], isError = e\<rparr>"

definition codeJson :: "code \<Rightarrow> json" where
  "codeJson c = (case c of Num n \<Rightarrow> JNum n | Str s \<Rightarrow> JStr s)"

text \<open>
  The response of the handlers that wrap one executor call: the serialized triple, and
  \<open>isError: result.exitCode !== 0\<close>.
\<close>

definition commandResponse :: "'w env \<Rightarrow> CommandResult \<Rightarrow> ToolResponse" where
  "commandResponse env result =
     textResponse
       (stringify env
          (JObj [(''stdout'', JStr (stdout result)),
                 (''stderr'', JStr (stderr result)),
                 (''exitCode'', codeJson (exitCode result))]))
       (Some (exitCode result \<noteq> Num 0))"

text \<open>
  The \<open>catch\<close> of \<open>handleTool\<close>: \<open>Error: ${error.message || String(error)}\<close>. An error
  is its message; \<open>String\<close> of an \<open>Error\<close> with an empty message is \<open>Error\<close>.
\<close>

definition errorResponse :: "string \<Rightarrow> ToolResponse" where
  "errorResponse message =
     textResponse (''Error: '' @ (if message = [] then ''Error'' else message)) (Some True)"

section \<open>GcpTools\<close>

text \<open>
  The state of a \<open>GcpTools\<close> object: the storage client of the constructor, \<open>None\<close>
  when \<open>new Storage()\<close> threw there.
\<close>

record gcp_tools =
  storage :: "gcs_client option"

definition newGcpTools :: "'w env \<Rightarrow> gcp_tools" where
  "newGcpTools env =
     \<lparr>storage = (case newStorage env None of Inl e \<Rightarrow> None | Inr client \<Rightarrow> Some client)\<rparr>"

definition handleRunGcloudCommand ::
  "'w env \<Rightarrow> args \<Rightarrow> 'w \<Rightarrow> (string + ToolResponse) \<times> 'w" where
  "handleRunGcloudCommand env a w =
     (case arg_command a of
        None \<Rightarrow> (Inl ''Command is required'', w)
      | Some command \<Rightarrow>
          if command = [] then (Inl ''Command is required'', w)
          else (case executeGcpCommand env command (arg_projectId a) w of
                  (Inl e, w') \<Rightarrow> (Inl e, w')
                | (Inr result, w') \<Rightarrow> (Inr (commandResponse env result), w')))"

definition bucketEntry :: "bucket \<Rightarrow> json" where
  "bucketEntry b =
     JObj [(''name'', JStr (bucket_name b)),
           (''location'', (case bucket_meta b of None \<Rightarrow> JUndefined | Some m \<Rightarrow> location m)),
           (''created'', (case bucket_meta b of None \<Rightarrow> JUndefined | Some m \<Rightarrow> timeCreated m)),
           (''updated'',
              (case bucket_meta b of None \<Rightarrow> JUndefined | Some m \<Rightarrow> bucket_updated m))]"

definition handleListBuckets ::
  "'w env \<Rightarrow> gcp_tools \<Rightarrow> args \<Rightarrow> 'w \<Rightarrow> (string + ToolResponse) \<times> 'w" where
  "handleListBuckets env tools a w =
     (case (if truthy (arg_projectId a) then newStorage env (arg_projectId a)
            else (case storage tools of
                    Some client \<Rightarrow> Inr client
                  | None \<Rightarrow> newStorage env None)) of
        Inl e \<Rightarrow> (Inl e, w)
      | Inr client \<Rightarrow>
          (case getBuckets env client w of
             (Inl e, w') \<Rightarrow> (Inl (''Failed to list buckets: '' @ e), w')
           | (Inr buckets, w') \<Rightarrow>
               (Inr (textResponse (stringify env (JArr (map bucketEntry buckets))) None), w')))"

definition GCS_NOT_INITIALIZED :: string where
  "GCS_NOT_INITIALIZED =
     ''GCS client not initialized. Ensure Google Cloud credentials are configured.''"

definition fileEntry :: "gcs_file \<Rightarrow> json" where
  "fileEntry f =
     JObj [(''name'', JStr (file_name f)),
           (''size'', file_size (file_meta f)),
           (''contentType'', file_contentType (file_meta f)),
           (''updated'', file_updated (file_meta f))]"

definition handleListObjects ::
  "'w env \<Rightarrow> gcp_tools \<Rightarrow> args \<Rightarrow> 'w \<Rightarrow> (string + ToolResponse) \<times> 'w" where
  "handleListObjects env tools a w =
     (case storage tools of
        None \<Rightarrow> (Inl GCS_NOT_INITIALIZED, w)
      | Some client \<Rightarrow>
          let prefix = strOr (arg_prefix a) [];
              maxResults = numOr (arg_maxResults a) 100
          in (case arg_bucketName a of
                None \<Rightarrow> (Inl ''Bucket name is required'', w)
              | Some bucketName \<Rightarrow>
                  if bucketName = [] then (Inl ''Bucket name is required'', w)
                  else (case getFiles env client bucketName prefix maxResults w of
                          (Inl e, w') \<Rightarrow> (Inl (''Failed to list objects: '' @ e), w')
                        | (Inr files, w') \<Rightarrow>
                            (Inr (textResponse (stringify env (JArr (map fileEntry files))) None),
                             w'))))"

definition handleReadObjectContent ::
  "'w env \<Rightarrow> gcp_tools \<Rightarrow> args \<Rightarrow> 'w \<Rightarrow> (string + ToolResponse) \<times> 'w" where
  "handleReadObjectContent env tools a w =
     (case storage tools of
        None \<Rightarrow> (Inl GCS_NOT_INITIALIZED, w)
      | Some client \<Rightarrow>
          let maxBytes = numOr (arg_maxBytes a) (1024 * 1024)
          in (case (arg_bucketName a, arg_objectName a) of
                (Some bucketName, Some objectName) \<Rightarrow>
                  if bucketName = [] \<or> objectName = []
                  then (Inl ''Bucket name and object name are required'', w)
                  else (case download env client bucketName objectName 0 (maxBytes - 1) w of
                          (Inl e, w') \<Rightarrow> (Inl (''Failed to read object: '' @ e), w')
                        | (Inr text, w') \<Rightarrow> (Inr (textResponse text None), w'))
              | _ \<Rightarrow> (Inl ''Bucket name and object name are required'', w)))"

definition handleGetObjectMetadata ::
  "'w env \<Rightarrow> gcp_tools \<Rightarrow> args \<Rightarrow> 'w \<Rightarrow> (string + ToolResponse) \<times> 'w" where
  "handleGetObjectMetadata env tools a w =
     (case storage tools of
        None \<Rightarrow> (Inl GCS_NOT_INITIALIZED, w)
      | Some client \<Rightarrow>
          (case (arg_bucketName a, arg_objectName a) of
             (Some bucketName, Some objectName) \<Rightarrow>
               if bucketName = [] \<or> objectName = []
               then (Inl ''Bucket name and object name are required'', w)
               else (case getMetadata env client bucketName objectName w of
                       (Inl e, w') \<Rightarrow> (Inl (''Failed to get object metadata: '' @ e), w')
                     | (Inr meta, w') \<Rightarrow> (Inr (textResponse (stringify env meta) None), w'))
           | _ \<Rightarrow> (Inl ''Bucket name and object name are required'', w)))"

text \<open>
  The two handlers that parse the standard output as JSON: \<open>fallback\<close> is the value taken
  for an empty output, \<open>failure\<close> the last resort text of the \<open>catch\<close> branch.
\<close>

definition parsedResponse ::
  "'w env \<Rightarrow> CommandResult \<Rightarrow> json \<Rightarrow> string \<Rightarrow> ToolResponse" where
  "parsedResponse env result fallback failure =
     (case (if stdout result = [] then Some fallback else parse env (stdout result)) of
        Some v \<Rightarrow> textResponse (stringify env v) (Some (exitCode result \<noteq> Num 0))
      | None \<Rightarrow>
          textResponse
            (if stdout result \<noteq> [] then stdout result
             else if stderr result \<noteq> [] then stderr result else failure)
            (Some True))"

definition handleListGceInstances ::
  "'w env \<Rightarrow> args \<Rightarrow> 'w \<Rightarrow> (string + ToolResponse) \<times> 'w" where
  "handleListGceInstances env a w =
     (let command =
            ''compute instances list''
            @ (case arg_zone a of
                 None \<Rightarrow> []
               | Some zone \<Rightarrow> if zone = [] then [] else '' --zones='' @ zone)
            @ (case arg_status a of
                 None \<Rightarrow> []
               | Some status \<Rightarrow>
                   if status = [] then [] else '' --filter=\"status:'' @ status @ ''\"'')
            @ '' --format=json''
      in case executeGcpCommand env command (arg_projectId a) w of
           (Inl e, w') \<Rightarrow> (Inl e, w')
         | (Inr result, w') \<Rightarrow>
             (Inr (parsedResponse env result (JArr []) ''Failed to parse instance list''), w'))"

text \<open>
  \<open>handleStartGceInstance\<close>, \<open>handleStopGceInstance\<close> and \<open>handleRestartGceInstance\<close>
  differ in the verb of the command only (\<open>start\<close>, \<open>stop\<close>, \<open>reset\<close>).
\<close>

definition instanceAction ::
  "string \<Rightarrow> 'w env \<Rightarrow> args \<Rightarrow> 'w \<Rightarrow> (string + ToolResponse) \<times> 'w" where
  "instanceAction verb env a w =
     (case (arg_instance a, arg_zone a) of
        (Some instance, Some zone) \<Rightarrow>
          if instance = [] \<or> zone = []
          then (Inl ''Instance name and zone are required'', w)
          else let command = ''compute instances '' @ verb @ '' '' @ instance @ '' --zone='' @ zone
               in (case executeGcpCommand env command (arg_projectId a) w of
                     (Inl e, w') \<Rightarrow> (Inl e, w')
                   | (Inr result, w') \<Rightarrow> (Inr (commandResponse env result), w'))
      | _ \<Rightarrow> (Inl ''Instance name and zone are required'', w))"

definition handleStartGceInstance ::
  "'w env \<Rightarrow> args \<Rightarrow> 'w \<Rightarrow> (string + ToolResponse) \<times> 'w" where
  "handleStartGceInstance = instanceAction ''start''"

definition handleStopGceInstance ::
  "'w env \<Rightarrow> args \<Rightarrow> 'w \<Rightarrow> (string + ToolResponse) \<times> 'w" where
  "handleStopGceInstance = instanceAction ''stop''"

definition handleRestartGceInstance ::
  "'w env \<Rightarrow> args \<Rightarrow> 'w \<Rightarrow> (string + ToolResponse) \<times> 'w" where
  "handleRestartGceInstance = instanceAction ''reset''"

definition handleGetGceInstanceInfo ::
  "'w env \<Rightarrow> args \<Rightarrow> 'w \<Rightarrow> (string + ToolResponse) \<times> 'w" where
  "handleGetGceInstanceInfo env a w =
     (case (arg_instance a, arg_zone a) of
        (Some instance, Some zone) \<Rightarrow>
          if instance = [] \<or> zone = []
          then (Inl ''Instance name and zone are required'', w)
          else let command = ''compute instances describe '' @ instance @ '' --zone='' @ zone
                             @ '' --format=json''
               in (case executeGcpCommand env command (arg_projectId a) w of
                     (Inl e, w') \<Rightarrow> (Inl e, w')
                   | (Inr result, w') \<Rightarrow>
                       (Inr (parsedResponse env result (JObj [])
                               ''Failed to parse instance info''), w'))
      | _ \<Rightarrow> (Inl ''Instance name and zone are required'', w))"

text \<open>\<open>Object.entries(labels).map(([key, value]) => `${key}=${value}`).join(',')\<close>.\<close>

definition labelsStr :: "(string \<times> string) list \<Rightarrow> string" where
  "labelsStr labels = join '','' (map (\<lambda>(key, value). key @ ''='' @ value) labels)"

text \<open>
  \<open>results.map((r, i) => `Operation ${i + 1}:\n${r.stdout}\n${r.stderr}`)\<close>, from the
  index \<open>i\<close> on.
\<close>

fun operationTexts :: "nat \<Rightarrow> CommandResult list \<Rightarrow> string list" where
  "operationTexts i [] = []"
| "operationTexts i (r # rs) =
     (''Operation '' @ showNat (i + 1) @ '':'' @ [CHR 0x0A] @ stdout r @ [CHR 0x0A] @ stderr r)
     # operationTexts (i + 1) rs"

definition handleModifyGceInstance ::
  "'w env \<Rightarrow> args \<Rightarrow> 'w \<Rightarrow> (string + ToolResponse) \<times> 'w" where
  "handleModifyGceInstance env a w =
     (case (arg_instance a, arg_zone a) of
        (Some instance, Some zone) \<Rightarrow>
          if instance = [] \<or> zone = []
          then (Inl ''Instance name and zone are required'', w)
          else
            let command =
                  ''compute instances set-machine-type '' @ instance @ '' --zone='' @ zone
                  @ (case arg_machineType a of
                       None \<Rightarrow> []
                     | Some machineType \<Rightarrow>
                         if machineType = [] then [] else '' --machine-type='' @ machineType)
            in (case (if truthy (arg_machineType a)
                      then (case executeGcpCommand env command (arg_projectId a) w of
                              (Inl e, w1) \<Rightarrow> (Inl e, w1)
                            | (Inr result, w1) \<Rightarrow> (Inr [result], w1))
                      else (Inr [], w)) of
                  (Inl e, w1) \<Rightarrow> (Inl e, w1)
                | (Inr results1, w1) \<Rightarrow>
                    (case (case arg_labels a of
                             None \<Rightarrow> (Inr results1, w1)
                           | Some labels \<Rightarrow>
                               let labelCommand =
                                     ''compute instances add-labels '' @ instance
                                     @ '' --zone='' @ zone @ '' --labels='' @ labelsStr labels
                               in (case executeGcpCommand env labelCommand (arg_projectId a) w1 of
                                     (Inl e, w2) \<Rightarrow> (Inl e, w2)
                                   | (Inr result, w2) \<Rightarrow> (Inr (results1 @ [result]), w2))) of
                       (Inl e, w2) \<Rightarrow> (Inl e, w2)
                     | (Inr results, w2) \<Rightarrow>
                         if length results = 0
                         then (Inl ''Either machineType or labels must be provided'', w2)
                         else
                           let hasError = list_ex (\<lambda>r. exitCode r \<noteq> Num 0) results;
                               combinedOutput =
                                 join [CHR 0x0A, CHR 0x0A] (operationTexts 0 results)
                           in (Inr (textResponse combinedOutput (Some hasError)), w2)))
      | _ \<Rightarrow> (Inl ''Instance name and zone are required'', w))"

text \<open>
  \<open>handleTool\<close> of \<open>GcpTools\<close>: the \<open>switch\<close> on the tool name inside a \<open>try\<close>, and the
  \<open>catch\<close> that turns every error into a response. It has no error result: nothing
  thrown in a handler leaves it.
\<close>

definition gcpSwitch ::
  "'w env \<Rightarrow> gcp_tools \<Rightarrow> string \<Rightarrow> args \<Rightarrow> 'w \<Rightarrow> (string + ToolResponse) \<times> 'w" where
  "gcpSwitch env tools name a w =
     (if name = ''gcp_run_gcloud_command'' then handleRunGcloudCommand env a w
      else if name = ''gcp_list_buckets'' then handleListBuckets env tools a w
      else if name = ''gcp_list_objects'' then handleListObjects env tools a w
      else if name = ''gcp_read_object_content'' then handleReadObjectContent env tools a w
      else if name = ''gcp_get_object_metadata'' then handleGetObjectMetadata env tools a w
      else if name = ''gcp_list_gce_instances'' then handleListGceInstances env a w
      else if name = ''gcp_start_gce_instance'' then handleStartGceInstance env a w
      else if name = ''gcp_stop_gce_instance'' then handleStopGceInstance env a w
      else if name = ''gcp_restart_gce_instance'' then handleRestartGceInstance env a w
      else if name = ''gcp_get_gce_instance_info'' then handleGetGceInstanceInfo env a w
      else if name = ''gcp_modify_gce_instance'' then handleModifyGceInstance env a w
      else (Inl (''Unknown GCP tool: '' @ name), w))"

definition GcpTools_handleTool ::
  "'w env \<Rightarrow> gcp_tools \<Rightarrow> string \<Rightarrow> args \<Rightarrow> 'w \<Rightarrow> ToolResponse \<times> 'w" where
  "GcpTools_handleTool env tools name a w =
     (case gcpSwitch env tools name a w of
        (Inl message, w') \<Rightarrow> (errorResponse message, w')
      | (Inr response, w') \<Rightarrow> (response, w'))"

section \<open>AzureTools\<close>

definition handleRunAzCommand ::
  "'w env \<Rightarrow> args \<Rightarrow> 'w \<Rightarrow> (string + ToolResponse) \<times> 'w" where
  "handleRunAzCommand env a w =
     (case arg_command a of
        None \<Rightarrow> (Inl ''Command is required'', w)
      | Some command \<Rightarrow>
          if command = [] then (Inl ''Command is required'', w)
          else (case executeAzureCommand env command (arg_subscriptionId a) w of
                  (Inl e, w') \<Rightarrow> (Inl e, w')
                | (Inr result, w') \<Rightarrow> (Inr (commandResponse env result), w')))"

definition handleListStorageAccounts ::
  "'w env \<Rightarrow> args \<Rightarrow> 'w \<Rightarrow> (string + ToolResponse) \<times> 'w" where
  "handleListStorageAccounts env a w =
     (let command =
            ''storage account list''
            @ (case arg_resourceGroup a of
                 None \<Rightarrow> []
               | Some resourceGroup \<Rightarrow>
                   if resourceGroup = [] then [] else '' --resource-group '' @ resourceGroup)
      in case executeAzureCommand env command (arg_subscriptionId a) w of
           (Inl e, w') \<Rightarrow> (Inl e, w')
         | (Inr result, w') \<Rightarrow>
             if exitCode result \<noteq> Num 0
             then (Inl (''Failed to list storage accounts: '' @ stderr result), w')
             else (case parse env (stdout result) of
                     None \<Rightarrow> (Inl ''Failed to parse storage accounts output'', w')
                   | Some accounts \<Rightarrow>
                       (Inr (textResponse (stringify env accounts) None), w')))"

definition getBlobServiceClient :: "string \<Rightarrow> string option \<Rightarrow> blob_service_client" where
  "getBlobServiceClient accountName accountKey =
     \<lparr>accountUrl = ''https://'' @ accountName @ ''.blob.core.windows.net'',
      client_credential =
        (case accountKey of
           None \<Rightarrow> DefaultAzureCredential
         | Some key \<Rightarrow>
             if key = [] then DefaultAzureCredential
             else StorageSharedKeyCredential accountName key)\<rparr>"

definition containerEntry :: "container_item \<Rightarrow> json" where
  "containerEntry c =
     JObj [(''name'', JStr (container_name c)),
           (''metadata'', container_metadata c),
           (''properties'',
              JObj [(''lastModified'',
                       (case container_props c of
                          None \<Rightarrow> JUndefined | Some p \<Rightarrow> cp_lastModified p)),
                    (''etag'',
                       (case container_props c of
                          None \<Rightarrow> JUndefined | Some p \<Rightarrow> cp_etag p))])]"

text \<open>
  The loop \<open>for await (const container of blobServiceClient.listContainers())\<close> with the
  array \<open>containers\<close> it pushes to: it runs to the end of the enumeration.
\<close>

fun collectContainers :: "container_item async_iter \<Rightarrow> json list \<Rightarrow> string + json list" where
  "collectContainers End containers = Inr containers"
| "collectContainers (Throw e) containers = Inl e"
| "collectContainers (Yield c rest) containers =
     collectContainers rest (containers @ [containerEntry c])"

definition handleListContainers ::
  "'w env \<Rightarrow> args \<Rightarrow> 'w \<Rightarrow> (string + ToolResponse) \<times> 'w" where
  "handleListContainers env a w =
     (case arg_accountName a of
        None \<Rightarrow> (Inl ''Account name is required'', w)
      | Some accountName \<Rightarrow>
          if accountName = [] then (Inl ''Account name is required'', w)
          else
            let blobServiceClient = getBlobServiceClient accountName (arg_accountKey a)
            in (case listContainers env blobServiceClient w of
                  (iter, w') \<Rightarrow>
                    (case collectContainers iter [] of
                       Inl e \<Rightarrow> (Inl (''Failed to list containers: '' @ e), w')
                     | Inr containers \<Rightarrow>
                         (Inr (textResponse (stringify env (JArr containers)) None), w'))))"

definition blobEntry :: "blob_item \<Rightarrow> json" where
  "blobEntry b =
     JObj [(''name'', JStr (blob_name b)),
           (''size'', bp_contentLength (blob_props b)),
           (''contentType'', bp_contentType (blob_props b)),
           (''lastModified'', bp_lastModified (blob_props b)),
           (''etag'', bp_etag (blob_props b))]"

text \<open>
  The loop \<open>for await (const blob of containerClient.listBlobsFlat({ prefix }))\<close> with
  its variables \<open>blobs\<close> and \<open>count\<close>: an item is taken from the enumeration, then
  \<open>if (count >= maxResults) break\<close>, then the push and the increment. \<open>count\<close> starts at
  0 and counts up by one; \<open>maxResults\<close> is whatever number the caller gave.
\<close>

fun collectBlobs ::
  "blob_item async_iter \<Rightarrow> number \<Rightarrow> json list \<Rightarrow> nat \<Rightarrow> string + json list" where
  "collectBlobs End maxResults blobs count = Inr blobs"
| "collectBlobs (Throw e) maxResults blobs count = Inl e"
| "collectBlobs (Yield b rest) maxResults blobs count =
     (if of_nat count \<ge> maxResults then Inr blobs
      else collectBlobs rest maxResults (blobs @ [blobEntry b]) (count + 1))"

definition handleListBlobs ::
  "'w env \<Rightarrow> args \<Rightarrow> 'w \<Rightarrow> (string + ToolResponse) \<times> 'w" where
  "handleListBlobs env a w =
     (let prefix = strOr (arg_prefix a) [];
          maxResults = numOr (arg_maxResults a) 100
      in case (arg_accountName a, arg_containerName a) of
           (Some accountName, Some containerName) \<Rightarrow>
             if accountName = [] \<or> containerName = []
             then (Inl ''Account name and container name are required'', w)
             else
               let blobServiceClient = getBlobServiceClient accountName (arg_accountKey a)
               in (case listBlobsFlat env blobServiceClient containerName prefix w of
                     (iter, w') \<Rightarrow>
                       (case collectBlobs iter maxResults [] 0 of
                          Inl e \<Rightarrow> (Inl (''Failed to list blobs: '' @ e), w')
                        | Inr blobs \<Rightarrow>
                            (Inr (textResponse (stringify env (JArr blobs)) None), w')))
         | _ \<Rightarrow> (Inl ''Account name and container name are required'', w))"

definition handleReadBlobContent ::
  "'w env \<Rightarrow> args \<Rightarrow> 'w \<Rightarrow> (string + ToolResponse) \<times> 'w" where
  "handleReadBlobContent env a w =
     (let maxBytes = numOr (arg_maxBytes a) (1024 * 1024)
      in case (arg_accountName a, arg_containerName a, arg_blobName a) of
           (Some accountName, Some containerName, Some blobName) \<Rightarrow>
             if accountName = [] \<or> containerName = [] \<or> blobName = []
             then (Inl ''Account name, container name, and blob name are required'', w)
             else
               let blobServiceClient = getBlobServiceClient accountName (arg_accountKey a)
               in (case blobDownload env blobServiceClient containerName blobName 0 maxBytes w of
                     (Inl e, w') \<Rightarrow> (Inl (''Failed to read blob: '' @ e), w')
                   | (Inr text, w') \<Rightarrow> (Inr (textResponse text None), w'))
         | _ \<Rightarrow> (Inl ''Account name, container name, and blob name are required'', w))"

definition handleGetBlobMetadata ::
  "'w env \<Rightarrow> args \<Rightarrow> 'w \<Rightarrow> (string + ToolResponse) \<times> 'w" where
  "handleGetBlobMetadata env a w =
     (case (arg_accountName a, arg_containerName a, arg_blobName a) of
        (Some accountName, Some containerName, Some blobName) \<Rightarrow>
          if accountName = [] \<or> containerName = [] \<or> blobName = []
          then (Inl ''Account name, container name, and blob name are required'', w)
          else
            let blobServiceClient = getBlobServiceClient accountName (arg_accountKey a)
            in (case getProperties env blobServiceClient containerName blobName w of
                  (Inl e, w') \<Rightarrow> (Inl (''Failed to get blob metadata: '' @ e), w')
                | (Inr properties, w') \<Rightarrow>
                    (Inr (textResponse
                            (stringify env
                               (JObj [(''name'', JStr blobName),
                                      (''contentType'', contentType properties),
                                      (''contentLength'', contentLength properties),
                                      (''lastModified'', lastModified properties),
                                      (''etag'', etag properties),
                                      (''metadata'', metadata properties),
                                      (''blobType'', blobType properties),
                                      (''accessTier'', accessTier properties)]))
                            None), w'))
      | _ \<Rightarrow> (Inl ''Account name, container name, and blob name are required'', w))"

definition azureSwitch ::
  "'w env \<Rightarrow> string \<Rightarrow> args \<Rightarrow> 'w \<Rightarrow> (string + ToolResponse) \<times> 'w" where
  "azureSwitch env name a w =
     (if name = ''azure_run_az_command'' then handleRunAzCommand env a w
      else if name = ''azure_list_storage_accounts'' then handleListStorageAccounts env a w
      else if name = ''azure_list_containers'' then handleListContainers env a w
      else if name = ''azure_list_blobs'' then handleListBlobs env a w
      else if name = ''azure_read_blob_content'' then handleReadBlobContent env a w
      else if name = ''azure_get_blob_metadata'' then handleGetBlobMetadata env a w
      else (Inl (''Unknown Azure tool: '' @ name), w))"

definition AzureTools_handleTool ::
  "'w env \<Rightarrow> string \<Rightarrow> args \<Rightarrow> 'w \<Rightarrow> ToolResponse \<times> 'w" where
  "AzureTools_handleTool env name a w =
     (case azureSwitch env name a w of
        (Inl message, w') \<Rightarrow> (errorResponse message, w')
      | (Inr response, w') \<Rightarrow> (response, w'))"

section \<open>Front ends\<close>

text \<open>
  The \<open>CallToolRequestSchema\<close> handler of the stdio server (\<open>setupHandlers\<close>): it returns
  a response, or throws to the protocol library that called it (\<open>Inl\<close> of the message).
  \<open>args || {}\<close> is the argument object, or the empty one when the request has none.
\<close>

definition callToolHandler ::
  "'w env \<Rightarrow> gcp_tools \<Rightarrow> string \<Rightarrow> args option \<Rightarrow> 'w \<Rightarrow> (string + ToolResponse) \<times> 'w" where
  "callToolHandler env gcpTools name params w =
     (let a = (case params of None \<Rightarrow> noArgs | Some x \<Rightarrow> x)
      in if startsWith name ''gcp_''
         then (case GcpTools_handleTool env gcpTools name a w of (r, w') \<Rightarrow> (Inr r, w'))
         else if startsWith name ''azure_''
         then (case AzureTools_handleTool env name a w of (r, w') \<Rightarrow> (Inr r, w'))
         else (Inl (''Unknown tool: '' @ name), w))"

text \<open>
  The HTTP server. A request body is a JSON object: its \<open>name\<close> and \<open>arguments\<close>
  properties when it has them, and the body itself read as an argument object. The
  \<open>catch\<close> of the two routes (status 500) has no branch here: \<open>handleTool\<close> throws
  nothing, and reading a property of a body that is an object does not throw.
\<close>

record request_body =
  body_name :: "string option"
  body_arguments :: "args option"
  body_fields :: args

datatype response_body = ErrorBody string | ResultBody ToolResponse

record http_response =
  status :: nat
  body :: response_body

text \<open>\<open>POST /tools/:toolName\<close>, with \<open>args = req.body.arguments || req.body || {}\<close>.\<close>

definition postTool ::
  "'w env \<Rightarrow> gcp_tools \<Rightarrow> string \<Rightarrow> request_body \<Rightarrow> 'w \<Rightarrow> http_response \<times> 'w" where
  "postTool env gcpTools toolName reqBody w =
     (let a = (case body_arguments reqBody of None \<Rightarrow> body_fields reqBody | Some x \<Rightarrow> x)
      in if startsWith toolName ''gcp_''
         then (case GcpTools_handleTool env gcpTools toolName a w of
                 (result, w') \<Rightarrow> (\<lparr>status = 200, body = ResultBody result\<rparr>, w'))
         else if startsWith toolName ''azure_''
         then (case AzureTools_handleTool env toolName a w of
                 (result, w') \<Rightarrow> (\<lparr>status = 200, body = ResultBody result\<rparr>, w'))
         else (\<lparr>status = 400, body = ErrorBody (''Unknown tool: '' @ toolName)\<rparr>, w))"

text \<open>\<open>POST /mcp/call\<close>, with the tool name in the body.\<close>

definition mcpCall ::
  "'w env \<Rightarrow> gcp_tools \<Rightarrow> request_body \<Rightarrow> 'w \<Rightarrow> http_response \<times> 'w" where
  "mcpCall env gcpTools reqBody w =
     (case body_name reqBody of
        None \<Rightarrow> (\<lparr>status = 400, body = ErrorBody ''Tool name is required''\<rparr>, w)
      | Some name \<Rightarrow>
          if name = [] then (\<lparr>status = 400, body = ErrorBody ''Tool name is required''\<rparr>, w)
          else
            let a = (case body_arguments reqBody of None \<Rightarrow> noArgs | Some x \<Rightarrow> x)
            in if startsWith name ''gcp_''
               then (case GcpTools_handleTool env gcpTools name a w of
                       (result, w') \<Rightarrow> (\<lparr>status = 200, body = ResultBody result\<rparr>, w'))
               else if startsWith name ''azure_''
               then (case AzureTools_handleTool env name a w of
                       (result, w') \<Rightarrow> (\<lparr>status = 200, body = ResultBody result\<rparr>, w'))
               else (\<lparr>status = 400, body = ErrorBody (''Unknown tool: '' @ name)\<rparr>, w))"

section \<open>Notions used to state the claims\<close>

text \<open>The message of a response: the text of its content items.\<close>

definition messageOf :: "ToolResponse \<Rightarrow> string" where
  "messageOf r = concat (map item_text (content r))"

text \<open>An enumeration that yields the items of a list and then goes on as \<open>rest\<close>.\<close>

fun iterOf :: "'a list \<Rightarrow> 'a async_iter \<Rightarrow> 'a async_iter" where
  "iterOf [] rest = rest"
| "iterOf (x # xs) rest = Yield x (iterOf xs rest)"

text \<open>
  The sub-operations of \<open>gcp_modify_gce_instance\<close> as commands, in their order: the
  change of the machine type when a non-empty \<open>machineType\<close> is given, then the update of
  the labels when \<open>labels\<close> is given.
\<close>

definition modifySteps :: "string \<Rightarrow> string \<Rightarrow> args \<Rightarrow> string list" where
  "modifySteps instance zone a =
     (case arg_machineType a of
        None \<Rightarrow> []
      | Some machineType \<Rightarrow>
          if machineType = [] then []
          else [''compute instances set-machine-type '' @ instance @ '' --zone='' @ zone
                @ '' --machine-type='' @ machineType])
     @ (case arg_labels a of
          None \<Rightarrow> []
        | Some labels \<Rightarrow>
            [''compute instances add-labels '' @ instance @ '' --zone='' @ zone
             @ '' --labels='' @ labelsStr labels])"

text \<open>
  Sequential execution with one result per step and nothing undone: each command goes
  through the executor in the world the previous one left; an error the executor raises
  ends the run in the world reached so far.
\<close>

fun runSteps ::
  "'w env \<Rightarrow> string list \<Rightarrow> string option \<Rightarrow> 'w \<Rightarrow> (string + CommandResult list) \<times> 'w" where
  "runSteps env [] projectId w = (Inr [], w)"
| "runSteps env (c # cs) projectId w =
     (case executeGcpCommand env c projectId w of
        (Inl e, w1) \<Rightarrow> (Inl e, w1)
      | (Inr r, w1) \<Rightarrow>
          (case runSteps env cs projectId w1 of
             (Inl e, w2) \<Rightarrow> (Inl e, w2)
           | (Inr rs, w2) \<Rightarrow> (Inr (r # rs), w2)))"

text \<open>The text of step \<open>i\<close> (counted from 0) in the combined output.\<close>

definition stepText :: "CommandResult list \<Rightarrow> nat \<Rightarrow> string" where
  "stepText results i =
     ''Operation '' @ showNat (i + 1) @ '':'' @ [CHR 0x0A] @ stdout (results ! i)
     @ [CHR 0x0A] @ stderr (results ! i)"

text \<open>
  The response the handler of \<open>gcp_modify_gce_instance\<close> is to give for the results of
  its steps: the step texts joined by an empty line, and \<open>isError\<close> true exactly when
  some step has a non-zero exit code.
\<close>

definition modifyResponse :: "CommandResult list \<Rightarrow> ToolResponse" where
  "modifyResponse results =
     \<lparr>content = [\<lparr>item_type = ''text'',
                  item_text = join [CHR 0x0A, CHR 0x0A] (map (stepText results) [0..<length results])\<rparr>],
      isError = Some (\<exists>r\<in>set results. exitCode r \<noteq> Num 0)\<rparr>"

text \<open>
  Concrete collaborators for the examples. The world records the calls made: the process
  runner appends its invocation and settles every run with the same outcome. The JSON
  library is stood in for by a compact rendering without escapes, and a parser that
  accepts nothing.
\<close>

definition recordingExec ::
  "exec_outcome \<Rightarrow> string \<Rightarrow> nat \<Rightarrow> nat \<Rightarrow> string list \<Rightarrow> exec_outcome \<times> string list" where
  "recordingExec outcome fullCommand timeout maxBuffer w = (outcome, w @ [fullCommand])"

definition showInt :: "int \<Rightarrow> string" where
  "showInt n = (if n < 0 then ''-'' @ showNat (nat (- n)) else showNat (nat n))"

fun renderJson :: "json \<Rightarrow> string" where
  "renderJson JUndefined = ''undefined''"
| "renderJson JNull = ''null''"
| "renderJson (JBool b) = (if b then ''true'' else ''false'')"
| "renderJson (JNum n) = showInt n"
| "renderJson (JStr s) = ''\"'' @ s @ ''\"''"
| "renderJson (JArr xs) = ''['' @ join '','' (map renderJson xs) @ '']''"
| "renderJson (JObj kvs) =
     ''{'' @ join '','' (map (\<lambda>(k, v). ''\"'' @ k @ ''\":'' @ renderJson v) kvs) @ ''}''"

definition demoEnv :: "exec_outcome \<Rightarrow> string list env" where
  "demoEnv outcome =
     \<lparr>execAsync = recordingExec outcome,
      stringify = renderJson,
      parse = (\<lambda>s. None),
      newStorage = (\<lambda>projectId. Inr (Storage projectId)),
      getBuckets = (\<lambda>client w. (Inr [], w)),
      getFiles = (\<lambda>client bucketName prefix maxResults w. (Inr [], w)),
      download = (\<lambda>client bucketName objectName start end w. (Inl ''not found'', w)),
      getMetadata = (\<lambda>client bucketName objectName w. (Inl ''not found'', w)),
      listContainers = (\<lambda>client w. (End, w)),
      listBlobsFlat = (\<lambda>client containerName prefix w. (End, w)),
      blobDownload = (\<lambda>client containerName blobName offset count w. (Inl ''not found'', w)),
      getProperties = (\<lambda>client containerName blobName w. (Inl ''not found'', w))\<rparr>"

text \<open>
  A process runner whose outcome depends on the invocation, a storage constructor that
  throws, and a storage account with given enumerations of containers and blobs.
\<close>

definition scriptedEnv :: "(string \<Rightarrow> exec_outcome) \<Rightarrow> string list env" where
  "scriptedEnv script =
     (demoEnv (Resolved None None))
       \<lparr>execAsync := (\<lambda>fullCommand timeout maxBuffer w. (script fullCommand, w @ [fullCommand]))\<rparr>"

definition noCredentialsEnv :: "string list env" where
  "noCredentialsEnv =
     (demoEnv (Resolved None None))
       \<lparr>newStorage := (\<lambda>projectId. Inl ''Could not load the default credentials'')\<rparr>"

definition demoContainer :: container_item where
  "demoContainer =
     \<lparr>container_name = ''logs'', container_metadata = JUndefined, container_props = None\<rparr>"

definition demoBlob :: "string \<Rightarrow> blob_item" where
  "demoBlob n =
     \<lparr>blob_name = n,
      blob_props = \<lparr>bp_contentLength = JNum 1, bp_contentType = JStr ''text/plain'',
                    bp_lastModified = JUndefined, bp_etag = JUndefined\<rparr>\<rparr>"

definition storageEnv ::
  "container_item async_iter \<Rightarrow> blob_item async_iter \<Rightarrow> string list env" where
  "storageEnv containers blobs =
     (demoEnv (Resolved None None))
       \<lparr>listContainers := (\<lambda>client w. (containers, w @ [''listContainers''])),
        listBlobsFlat :=
          (\<lambda>client containerName prefix w. (blobs, w @ [''listBlobsFlat'']))\<rparr>"

text \<open>
  A process runner that refuses the update of labels and performs everything else, and
  the arguments of a modification of machine type and labels.
\<close>

definition labelsDenied :: "string \<Rightarrow> exec_outcome" where
  "labelsDenied fullCommand =
     (if includesStr fullCommand ''add-labels''
      then Rejected \<lparr>err_stdout = Some [], err_stderr = Some ''ERROR: permission denied'',
                     err_message = Some ''Command failed'', err_code = Some (Num 1)\<rparr>
      else Resolved (Some ''Updated [vm1].'') (Some []))"

definition demoModifyArgs :: "(string \<times> string) list \<Rightarrow> args" where
  "demoModifyArgs labels =
     noArgs\<lparr>arg_instance := Some ''vm1'', arg_zone := Some ''z1'',
            arg_machineType := Some ''e2-small'', arg_labels := Some labels\<rparr>"

text \<open>
  The outcome of a run that was stopped because its standard output went over the buffer
  cap: the error of \<open>child_process.exec\<close> carries a string code and the output so far.
\<close>

definition bufferExceeded :: exec_outcome where
  "bufferExceeded =
     Rejected \<lparr>err_stdout = Some ''[{'', err_stderr = Some [],
               err_message = Some ''stdout maxBuffer length exceeded'',
               err_code = Some (Str ''ERR_CHILD_PROCESS_STDIO_MAXBUFFER'')\<rparr>"

section \<open>Validator and executor: helper facts\<close>

lemma checkBlocked_Some:
  "checkBlocked n bs = Some v \<Longrightarrow> \<not> valid v \<and> (\<exists>r. reason v = Some r \<and> r \<noteq> [])"
  by (induction bs) (auto split: if_splits)

lemma checkBlocked_None_iff:
  "checkBlocked n bs = None \<longleftrightarrow> (\<forall>b\<in>set bs. \<not> startsWith n b)"
  by (induction bs) auto

lemma startsWith_nonempty: "startsWith n b \<Longrightarrow> b \<noteq> [] \<Longrightarrow> n \<noteq> []"
  by (cases n; cases b) auto

lemma denylist_nonempty: "b \<in> set (denylist p) \<Longrightarrow> b \<noteq> []"
  by (cases p) (auto simp: denylist_def BLOCKED_GCP_COMMANDS_def BLOCKED_AZURE_COMMANDS_def)

lemma validate_blocked:
  assumes "b \<in> set (denylist p)" "startsWith (normalizeCommand c) b"
  shows "\<exists>r. validate p c = \<lparr>valid = False, reason = Some r\<rparr> \<and> r \<noteq> []"
proof -
  have ne: "normalizeCommand c \<noteq> []" using assms startsWith_nonempty denylist_nonempty by blast
  hence t: "trim c \<noteq> []" "c \<noteq> []" by (auto simp: normalizeCommand_def toLowerCase_def trim_def)
  have "checkBlocked (normalizeCommand c) (denylist p) \<noteq> None"
    using assms by (auto simp: checkBlocked_None_iff)
  then obtain v where v: "checkBlocked (normalizeCommand c) (denylist p) = Some v" by auto
  from checkBlocked_Some[OF v] obtain r where "v = \<lparr>valid = False, reason = Some r\<rparr>" "r \<noteq> []"
    by (cases v) auto
  with v t show ?thesis
    by (cases p) (auto simp: validate_def validateGcpCommand_def validateAzureCommand_def denylist_def normalizeCommand_def)
qed

lemma execute_rejected:
  assumes "validate p c = \<lparr>valid = False, reason = Some r\<rparr>" "r \<noteq> []"
  shows "execute env p c s w = (Inl r, w)"
proof (cases p)
  case GCP
  with assms have v: "validateGcpCommand c = \<lparr>valid = False, reason = Some r\<rparr>"
    by (simp add: validate_def)
  show ?thesis unfolding execute_def GCP executeGcpCommand_def v
    using assms(2) by (simp add: strOr_def)
next
  case Azure
  with assms have v: "validateAzureCommand c = \<lparr>valid = False, reason = Some r\<rparr>"
    by (simp add: validate_def)
  show ?thesis unfolding execute_def Azure executeAzureCommand_def v
    using assms(2) by (simp add: strOr_def)
qed

section \<open>Verified claims\<close>

text \<open>Facts that evaluate the definitions on concrete inputs.\<close>

lemmas str_eval = normalizeCommand_def trim_def isWhiteSpace_def toLowerCase_def
  toLowerChar_def char_of_def bit_Suc_0_iff

lemmas policy_eval = denylist_def BLOCKED_GCP_COMMANDS_def BLOCKED_AZURE_COMMANDS_def
  validate_def validateGcpCommand_def validateAzureCommand_def

lemmas exec_eval = execute_def executeGcpCommand_def executeAzureCommand_def
  toCommandResult_def strOr_def codeOr_def demoEnv_def recordingExec_def
  getMaxTimeout_def getMaxBufferSize_def MAX_TIMEOUT_MS_def MAX_BUFFER_SIZE_def

text \<open>
  Claim C1. A command whose normalized (trimmed, lowercased) text starts with an entry of
  its provider's denylist is rejected by the validator with a non-empty reason, and the
  executor raises that reason without running anything: for every process runner and every
  world, the world comes back unchanged.
\<close>

theorem denylisted_rejected_and_never_spawned:
  assumes "blocked \<in> set (denylist p)"
    and "startsWith (normalizeCommand command) blocked"
  shows "\<exists>r. validate p command = \<lparr>valid = False, reason = Some r\<rparr> \<and> r \<noteq> []
             \<and> execute env p command scopeId w = (Inl r, w)"
proof -
  from validate_blocked[OF assms] obtain r
    where r: "validate p command = \<lparr>valid = False, reason = Some r\<rparr>" "r \<noteq> []"
    by blast
  from execute_rejected[OF r] have "execute env p command scopeId w = (Inl r, w)" .
  with r show ?thesis by blast
qed

text \<open>
  The theorem at an Azure command: the recording world stays empty, so no invocation was
  handed to the process runner.
\<close>

theorem denylisted_rejected_and_never_spawned_witness:
  "''account'' \<in> set (denylist Azure)
   \<and> startsWith (normalizeCommand ''  Account set --subscription x'') ''account''
   \<and> validate Azure ''  Account set --subscription x''
       = \<lparr>valid = False,
          reason = Some ''Command blocked: account commands are not allowed for security reasons''\<rparr>
   \<and> execute (demoEnv (Resolved None None)) Azure ''  Account set --subscription x'' (Some ''s1'') []
       = (Inl ''Command blocked: account commands are not allowed for security reasons'', [])"
  using denylisted_rejected_and_never_spawned
          [of "''account''" Azure "''  Account set --subscription x''"
              "demoEnv (Resolved None None)" "Some ''s1''" "[]"]
  by (simp add: str_eval policy_eval)

text \<open>
  Claim C7, as amended. For both providers, a command that is empty or consists of white
  space only is rejected with the reason \<open>Empty command\<close>, with a capital E.
\<close>

theorem blank_command_rejected:
  assumes "\<forall>ch\<in>set command. isWhiteSpace ch"
  shows "validate p command = \<lparr>valid = False, reason = Some ''Empty command''\<rparr>"
proof -
  have d: "dropWhile isWhiteSpace command = []"
    using assms by (simp add: dropWhile_eq_Nil_conv)
  have "trim command = []" unfolding trim_def d by simp
  thus ?thesis by (cases p) (simp_all add: validate_def validateGcpCommand_def validateAzureCommand_def)
qed

text \<open>The theorem at a command of a space, a tab and a line feed, and at the empty command.\<close>

theorem blank_command_rejected_witness:
  "isWhiteSpace (CHR 0x20) \<and> isWhiteSpace (CHR 0x09) \<and> isWhiteSpace (CHR 0x0A)
   \<and> validate Azure [CHR 0x20, CHR 0x09, CHR 0x0A] = \<lparr>valid = False, reason = Some ''Empty command''\<rparr>
   \<and> validate GCP [] = \<lparr>valid = False, reason = Some ''Empty command''\<rparr>"
  using blank_command_rejected [of "[CHR 0x20, CHR 0x09, CHR 0x0A]" Azure]
        blank_command_rejected [of "[]" GCP]
  by (simp add: isWhiteSpace_def)

text \<open>
  Claim C7 as it was stated names the reason \<open>empty command\<close>; the reason the code
  returns differs from it in the first letter.
\<close>

theorem blank_command_reason_counterexample:
  "reason (validate GCP ''   '') = Some ''Empty command''
   \<and> reason (validate GCP ''   '') \<noteq> Some ''empty command''
   \<and> reason (validate Azure []) \<noteq> Some ''empty command''"
  by (simp add: str_eval policy_eval)

text \<open>
  Claim C8. A GCP command whose normalized text contains both \<open>--format\<close> and \<open>eval\<close>
  is rejected with a non-empty reason. The Azure validator has no such check: a non-blank
  command that starts with no entry of the Azure denylist is accepted whatever it contains.
\<close>

theorem format_eval_rejected_for_gcp_only:
  "(includesStr (normalizeCommand command) ''--format''
      \<and> includesStr (normalizeCommand command) ''eval''
     \<longrightarrow> (\<exists>r. validateGcpCommand command = \<lparr>valid = False, reason = Some r\<rparr> \<and> r \<noteq> []))
   \<and> (trim command \<noteq> []
      \<and> (\<forall>blocked\<in>set BLOCKED_AZURE_COMMANDS. \<not> startsWith (normalizeCommand command) blocked)
     \<longrightarrow> validateAzureCommand command = \<lparr>valid = True, reason = None\<rparr>)"
proof (intro conjI impI)
  assume a: "includesStr (normalizeCommand command) ''--format''
      \<and> includesStr (normalizeCommand command) ''eval''"
  hence "normalizeCommand command \<noteq> []" by auto
  hence t: "trim command \<noteq> []" "command \<noteq> []"
    by (auto simp: normalizeCommand_def toLowerCase_def trim_def)
  show "\<exists>r. validateGcpCommand command = \<lparr>valid = False, reason = Some r\<rparr> \<and> r \<noteq> []"
  proof (cases "checkBlocked (normalizeCommand command) BLOCKED_GCP_COMMANDS")
    case None
    with a t show ?thesis by (simp add: validateGcpCommand_def normalizeCommand_def)
  next
    case (Some v)
    from checkBlocked_Some[OF Some] obtain r where "v = \<lparr>valid = False, reason = Some r\<rparr>" "r \<noteq> []"
      by (cases v) auto
    with Some t show ?thesis by (simp add: validateGcpCommand_def normalizeCommand_def)
  qed
next
  assume b: "trim command \<noteq> []
      \<and> (\<forall>blocked\<in>set BLOCKED_AZURE_COMMANDS. \<not> startsWith (normalizeCommand command) blocked)"
  hence "checkBlocked (normalizeCommand command) BLOCKED_AZURE_COMMANDS = None"
    by (simp add: checkBlocked_None_iff)
  moreover have "command \<noteq> []" using b by (auto simp: trim_def)
  ultimately show "validateAzureCommand command = \<lparr>valid = True, reason = None\<rparr>"
    using b by (simp add: validateAzureCommand_def normalizeCommand_def)
qed

text \<open>One command with both tokens: rejected for GCP, accepted for Azure.\<close>

theorem format_eval_rejected_for_gcp_only_witness:
  "includesStr (normalizeCommand ''vm list --FORMAT=x Eval'') ''--format''
   \<and> includesStr (normalizeCommand ''vm list --FORMAT=x Eval'') ''eval''
   \<and> validateGcpCommand ''vm list --FORMAT=x Eval''
       = \<lparr>valid = False, reason = Some ''Potentially dangerous format evaluation detected''\<rparr>
   \<and> trim ''vm list --FORMAT=x Eval'' \<noteq> []
   \<and> \<not> startsWith (normalizeCommand ''vm list --FORMAT=x Eval'') ''login''
   \<and> \<not> startsWith (normalizeCommand ''vm list --FORMAT=x Eval'') ''account''
   \<and> \<not> startsWith (normalizeCommand ''vm list --FORMAT=x Eval'') ''config''
   \<and> validateAzureCommand ''vm list --FORMAT=x Eval'' = \<lparr>valid = True, reason = None\<rparr>"
  using format_eval_rejected_for_gcp_only [of "''vm list --FORMAT=x Eval''"]
  by (simp add: str_eval policy_eval)

lemma execute_accepted:
  assumes "valid (validate p command)"
  shows "execute env p command scopeId w =
           (case execAsync env
                   (cliName p @ '' '' @ command
                      @ (case scopeId of
                           None \<Rightarrow> []
                         | Some s \<Rightarrow> if s = [] then [] else scopeFlag p s))
                   getMaxTimeout getMaxBufferSize w of
              (outcome, w') \<Rightarrow> (Inr (toCommandResult outcome), w'))"
proof (cases p)
  case GCP
  with assms have v: "valid (validateGcpCommand command)" by (simp add: validate_def)
  show ?thesis unfolding execute_def GCP executeGcpCommand_def
    using v by (simp add: cliName_def scopeFlag_def split: option.split)
next
  case Azure
  with assms have v: "valid (validateAzureCommand command)" by (simp add: validate_def)
  show ?thesis unfolding execute_def Azure executeAzureCommand_def
    using v by (simp add: cliName_def scopeFlag_def split: option.split)
qed

text \<open>
  Claim C4. For a command the validator accepts, the process runner is called once, with
  the CLI program name, a space and the raw command text as given (not trimmed, not
  lowercased), followed by \<open> --project=\<close> and the project id for GCP, or by
  \<open> --subscription \<close> and the subscription id for Azure, when a non-empty scope
  identifier is supplied, and by nothing otherwise.
\<close>

theorem invocation_is_cli_name_and_raw_command:
  assumes "valid (validate p command)"
  shows "execute env p command scopeId w =
           (case execAsync env
                   (cliName p @ '' '' @ command
                      @ (case scopeId of
                           None \<Rightarrow> []
                         | Some s \<Rightarrow> if s = [] then [] else scopeFlag p s))
                   getMaxTimeout getMaxBufferSize w of
              (outcome, w') \<Rightarrow> (Inr (toCommandResult outcome), w'))"
  using assms by (rule execute_accepted)

text \<open>
  The theorem at three calls; the recording world holds the invocation, with the double
  space, the quotes and the capitals of the raw text kept.
\<close>

theorem invocation_is_cli_name_and_raw_command_witness:
  "valid (validate GCP ''compute instances list  --filter=\"Name:X\"'')
   \<and> valid (validate Azure '' VM list'')
   \<and> snd (execute (demoEnv (Resolved None None)) GCP
              ''compute instances list  --filter=\"Name:X\"'' (Some ''p1'') [])
       = [''gcloud compute instances list  --filter=\"Name:X\" --project=p1'']
   \<and> snd (execute (demoEnv (Resolved None None)) GCP
              ''compute instances list  --filter=\"Name:X\"'' None [])
       = [''gcloud compute instances list  --filter=\"Name:X\"'']
   \<and> snd (execute (demoEnv (Resolved None None)) Azure '' VM list'' (Some ''s1'') [])
       = [''az  VM list --subscription s1'']"
  using invocation_is_cli_name_and_raw_command
          [of GCP "''compute instances list  --filter=\"Name:X\"''"
              "demoEnv (Resolved None None)" "Some ''p1''" "[]"]
        invocation_is_cli_name_and_raw_command
          [of GCP "''compute instances list  --filter=\"Name:X\"''"
              "demoEnv (Resolved None None)" None "[]"]
        invocation_is_cli_name_and_raw_command
          [of Azure "'' VM list''" "demoEnv (Resolved None None)" "Some ''s1''" "[]"]
  by (simp add: str_eval policy_eval cliName_def scopeFlag_def demoEnv_def recordingExec_def)

lemma toCommandResult_exit_zero:
  "(exitCode (toCommandResult outcome) = Num 0) = (\<exists>out err. outcome = Resolved out err)"
  by (cases outcome)
     (auto simp: toCommandResult_def codeOr_def split: option.splits code.splits)

text \<open>
  What the executor returns for a validated command, for every process runner: it never
  raises, and the result follows from the outcome of the run of its invocation. A resolved
  run gives its two outputs and exit code 0. A rejected run gives the partial output of the
  error, its stderr when that is non-empty and its message otherwise, and as exit code the
  code of the error when that is truthy, a number or a string alike, and 1 otherwise. The
  exit code is the number 0 exactly for a resolved run.
\<close>

lemma executor_result_of_outcome:
  assumes "valid (validate p command)"
    and "execAsync env
           (cliName p @ '' '' @ command
              @ (case scopeId of None \<Rightarrow> [] | Some s \<Rightarrow> if s = [] then [] else scopeFlag p s))
           getMaxTimeout getMaxBufferSize w = (outcome, w')"
  shows "\<exists>result.
           execute env p command scopeId w = (Inr result, w')
           \<and> (case outcome of
                 Resolved out err \<Rightarrow>
                   result = \<lparr>stdout = (case out of None \<Rightarrow> [] | Some s \<Rightarrow> s),
                             stderr = (case err of None \<Rightarrow> [] | Some s \<Rightarrow> s),
                             exitCode = Num 0\<rparr>
               | Rejected error \<Rightarrow>
                   stdout result = (case err_stdout error of None \<Rightarrow> [] | Some s \<Rightarrow> s)
                   \<and> stderr result =
                       (case err_stderr error of
                          None \<Rightarrow> (case err_message error of None \<Rightarrow> [] | Some m \<Rightarrow> m)
                        | Some s \<Rightarrow>
                            if s = []
                            then (case err_message error of None \<Rightarrow> [] | Some m \<Rightarrow> m)
                            else s)
                   \<and> exitCode result =
                       (case err_code error of
                          None \<Rightarrow> Num 1
                        | Some c \<Rightarrow> if c = Num 0 \<or> c = Str [] then Num 1 else c))
           \<and> ((exitCode result = Num 0) = (\<exists>out err. outcome = Resolved out err))"
proof -
  have ex: "execute env p command scopeId w = (Inr (toCommandResult outcome), w')"
    unfolding execute_accepted[OF assms(1)] assms(2) by simp
  have shape: "(case outcome of
                 Resolved out err \<Rightarrow>
                   toCommandResult outcome = \<lparr>stdout = (case out of None \<Rightarrow> [] | Some s \<Rightarrow> s),
                             stderr = (case err of None \<Rightarrow> [] | Some s \<Rightarrow> s),
                             exitCode = Num 0\<rparr>
               | Rejected error \<Rightarrow>
                   stdout (toCommandResult outcome) = (case err_stdout error of None \<Rightarrow> [] | Some s \<Rightarrow> s)
                   \<and> stderr (toCommandResult outcome) =
                       (case err_stderr error of
                          None \<Rightarrow> (case err_message error of None \<Rightarrow> [] | Some m \<Rightarrow> m)
                        | Some s \<Rightarrow>
                            if s = []
                            then (case err_message error of None \<Rightarrow> [] | Some m \<Rightarrow> m)
                            else s)
                   \<and> exitCode (toCommandResult outcome) =
                       (case err_code error of
                          None \<Rightarrow> Num 1
                        | Some c \<Rightarrow> if c = Num 0 \<or> c = Str [] then Num 1 else c))"
    by (cases outcome)
       (auto simp: toCommandResult_def strOr_def codeOr_def split: option.splits code.splits)
  from ex shape toCommandResult_exit_zero[of outcome] show ?thesis by blast
qed

text \<open>
  Claim C2. The claim, and the type \<open>number\<close> the source declares for \<open>exitCode\<close>, ask
  for the exit code the process reported, or 1 where there is none. The executor passes
  on whatever \<open>error.code\<close> is: for a run stopped because its output went over the buffer
  cap, where the error carries the code \<open>ERR_CHILD_PROCESS_STDIO_MAXBUFFER\<close> and the
  process reported no exit code, the exit code of the result is that string, not 1.
\<close>

theorem executor_string_code_reaches_exit_code:
  "execute (demoEnv bufferExceeded) GCP ''compute instances list --format=json'' None []
     = (Inr \<lparr>stdout = ''[{'', stderr = ''stdout maxBuffer length exceeded'',
              exitCode = Str ''ERR_CHILD_PROCESS_STDIO_MAXBUFFER''\<rparr>,
        [''gcloud compute instances list --format=json''])
   \<and> Str ''ERR_CHILD_PROCESS_STDIO_MAXBUFFER'' \<noteq> Num 1"
  by (simp add: str_eval policy_eval exec_eval bufferExceeded_def)

lemmas tool_eval = textResponse_def errorResponse_def messageOf_def noArgs_def
  GcpTools_handleTool_def gcpSwitch_def AzureTools_handleTool_def azureSwitch_def
  callToolHandler_def postTool_def mcpCall_def

text \<open>
  Claim C3, as amended. For a tool name with neither the \<open>gcp_\<close> nor the \<open>azure_\<close>
  prefix no handler runs and no tool response is made: the stdio handler throws an error
  with the message \<open>Unknown tool: \<close> and the name, and both HTTP routes answer with
  status 400 and that message as the \<open>error\<close> of the body (\<open>/mcp/call\<close> answers
  \<open>Tool name is required\<close> for an empty name). The world is unchanged.
\<close>

theorem unknown_prefix_refused_by_front_ends:
  assumes "\<not> startsWith name ''gcp_''" and "\<not> startsWith name ''azure_''"
  shows "callToolHandler env gcpTools name params w = (Inl (''Unknown tool: '' @ name), w)
         \<and> postTool env gcpTools name reqBody w
             = (\<lparr>status = 400, body = ErrorBody (''Unknown tool: '' @ name)\<rparr>, w)
         \<and> mcpCall env gcpTools (reqBody\<lparr>body_name := Some name\<rparr>) w
             = (\<lparr>status = 400,
                 body = ErrorBody (if name = [] then ''Tool name is required''
                                   else ''Unknown tool: '' @ name)\<rparr>, w)"
  using assms by (simp add: callToolHandler_def postTool_def mcpCall_def)

text \<open>The theorem at the tool name \<open>unknown_tool\<close>.\<close>

theorem unknown_prefix_refused_by_front_ends_witness:
  "\<not> startsWith ''unknown_tool'' ''gcp_'' \<and> \<not> startsWith ''unknown_tool'' ''azure_''
   \<and> callToolHandler (demoEnv (Resolved None None)) \<lparr>storage = None\<rparr> ''unknown_tool''
         (Some noArgs) []
       = (Inl ''Unknown tool: unknown_tool'', [])
   \<and> postTool (demoEnv (Resolved None None)) \<lparr>storage = None\<rparr> ''unknown_tool''
         \<lparr>body_name = None, body_arguments = Some noArgs, body_fields = noArgs\<rparr> []
       = (\<lparr>status = 400, body = ErrorBody ''Unknown tool: unknown_tool''\<rparr>, [])"
  using unknown_prefix_refused_by_front_ends
          [of "''unknown_tool''" "demoEnv (Resolved None None)" "\<lparr>storage = None\<rparr>"
              "Some noArgs" "[]"
              "\<lparr>body_name = None, body_arguments = Some noArgs, body_fields = noArgs\<rparr>"]
  by simp

text \<open>
  Claim C3 as it was stated asks for a tool response with \<open>isError\<close> true. For
  \<open>unknown_tool\<close> the stdio handler gives no response but an error thrown to its caller,
  and the HTTP route gives a status 400 with an \<open>error\<close> body.
\<close>

theorem unknown_tool_counterexample:
  "fst (callToolHandler (demoEnv (Resolved None None)) \<lparr>storage = None\<rparr> ''unknown_tool''
          (Some noArgs) [])
     = Inl ''Unknown tool: unknown_tool''
   \<and> fst (callToolHandler (demoEnv (Resolved None None)) \<lparr>storage = None\<rparr> ''unknown_tool''
            (Some noArgs) [])
       \<noteq> Inr (errorResponse ''Unknown tool: unknown_tool'')
   \<and> fst (postTool (demoEnv (Resolved None None)) \<lparr>storage = None\<rparr> ''unknown_tool''
            \<lparr>body_name = None, body_arguments = Some noArgs, body_fields = noArgs\<rparr> [])
       = \<lparr>status = 400, body = ErrorBody ''Unknown tool: unknown_tool''\<rparr>"
  by (simp add: callToolHandler_def postTool_def)

text \<open>
  Claim C9, as amended. \<open>gcp_list_objects\<close> without a \<open>bucketName\<close> gives a response
  with \<open>isError\<close> true and no external call (the world is unchanged). Its message is
  \<open>Error: Bucket name is required\<close> when the constructor obtained a storage client; when
  it did not, the handler stops earlier, at its check of the client, and the message does
  not mention the bucket name.
\<close>

theorem list_objects_without_bucket_name:
  assumes "arg_bucketName a = None"
  shows "\<exists>r. GcpTools_handleTool env tools ''gcp_list_objects'' a w = (r, w)
             \<and> callToolHandler env tools ''gcp_list_objects'' (Some a) w = (Inr r, w)
             \<and> isError r = Some True
             \<and> messageOf r
                 = (case storage tools of
                      Some client \<Rightarrow> ''Error: Bucket name is required''
                    | None \<Rightarrow> ''Error: '' @ GCS_NOT_INITIALIZED)
             \<and> includesStr (messageOf r) ''Bucket name'' = (storage tools \<noteq> None)"
  using assms
  by (cases "storage tools")
     (simp_all add: callToolHandler_def GcpTools_handleTool_def gcpSwitch_def
        handleListObjects_def errorResponse_def textResponse_def messageOf_def
        GCS_NOT_INITIALIZED_def Let_def)

text \<open>The theorem at the empty argument object, with a storage client.\<close>

theorem list_objects_without_bucket_name_witness:
  "arg_bucketName noArgs = None
   \<and> GcpTools_handleTool (demoEnv (Resolved None None))
         (newGcpTools (demoEnv (Resolved None None))) ''gcp_list_objects'' noArgs []
       = (errorResponse ''Bucket name is required'', [])
   \<and> includesStr (messageOf (errorResponse ''Bucket name is required'')) ''Bucket name''"
  using list_objects_without_bucket_name
          [of noArgs "demoEnv (Resolved None None)"
              "newGcpTools (demoEnv (Resolved None None))" "[]"]
  by (simp add: tool_eval handleListObjects_def newGcpTools_def demoEnv_def)

text \<open>
  Claim C9 as it was stated, at a \<open>GcpTools\<close> whose constructor caught an error of
  \<open>new Storage()\<close>: the message is the one of the missing client.
\<close>

theorem list_objects_uninitialized_counterexample:
  "newGcpTools noCredentialsEnv = \<lparr>storage = None\<rparr>
   \<and> GcpTools_handleTool noCredentialsEnv (newGcpTools noCredentialsEnv)
         ''gcp_list_objects'' noArgs []
       = (errorResponse GCS_NOT_INITIALIZED, [])
   \<and> \<not> includesStr (messageOf (errorResponse GCS_NOT_INITIALIZED)) ''Bucket name''"
  by (simp add: tool_eval handleListObjects_def newGcpTools_def noCredentialsEnv_def
        demoEnv_def GCS_NOT_INITIALIZED_def)

text \<open>
  Claim C10. \<open>gcp_modify_gce_instance\<close> with the required instance and zone and with
  neither \<open>machineType\<close> nor \<open>labels\<close> gives a response with \<open>isError\<close> true whose
  message contains \<open>Either machineType or labels must be provided\<close>, and the executor is
  not called: the world is unchanged for every process runner.
\<close>

theorem modify_without_changes_refused:
  assumes "arg_instance a = Some instance" and "instance \<noteq> []"
    and "arg_zone a = Some zone" and "zone \<noteq> []"
    and "arg_machineType a = None" and "arg_labels a = None"
  shows "\<exists>r. GcpTools_handleTool env tools ''gcp_modify_gce_instance'' a w = (r, w)
             \<and> callToolHandler env tools ''gcp_modify_gce_instance'' (Some a) w = (Inr r, w)
             \<and> isError r = Some True
             \<and> messageOf r = ''Error: Either machineType or labels must be provided''
             \<and> includesStr (messageOf r) ''Either machineType or labels must be provided''"
  using assms
  by (simp add: callToolHandler_def GcpTools_handleTool_def gcpSwitch_def
        handleModifyGceInstance_def errorResponse_def textResponse_def messageOf_def
        truthy_def)

text \<open>The theorem at an instance and a zone only; the recording world stays empty.\<close>

theorem modify_without_changes_refused_witness:
  "GcpTools_handleTool (demoEnv (Resolved None None)) \<lparr>storage = None\<rparr>
       ''gcp_modify_gce_instance''
       (noArgs\<lparr>arg_instance := Some ''vm1'', arg_zone := Some ''us-central1-a''\<rparr>) []
     = (errorResponse ''Either machineType or labels must be provided'', [])"
  using modify_without_changes_refused
          [of "noArgs\<lparr>arg_instance := Some ''vm1'', arg_zone := Some ''us-central1-a''\<rparr>"
              "''vm1''" "''us-central1-a''" "demoEnv (Resolved None None)"
              "\<lparr>storage = None\<rparr>" "[]"]
  by (simp add: tool_eval handleModifyGceInstance_def truthy_def)

text \<open>The two listing loops of \<open>AzureTools\<close>.\<close>

lemma collectContainers_all:
  "collectContainers (iterOf xs End) acc = Inr (acc @ map containerEntry xs)"
  by (induction xs arbitrary: acc) simp_all

lemma collectBlobs_bound:
  "collectBlobs it (of_nat n) acc c = Inr bs \<Longrightarrow> length bs \<le> length acc + (n - c)"
proof (induction it arbitrary: acc c)
  case End
  then show ?case by simp
next
  case (Throw e)
  then show ?case by simp
next
  case (Yield b rest)
  show ?case
  proof (cases "n \<le> c")
    case True
    with Yield.prems show ?thesis by simp
  next
    case False
    with Yield.prems have "collectBlobs rest (of_nat n) (acc @ [blobEntry b]) (Suc c) = Inr bs"
      by simp
    from Yield.IH[OF this] False show ?thesis by simp
  qed
qed

lemma collectBlobs_stops:
  "c \<le> n \<Longrightarrow> n - c < length xs \<Longrightarrow>
   collectBlobs (iterOf xs rest) (of_nat n) acc c = Inr (acc @ map blobEntry (take (n - c) xs))"
proof (induction xs arbitrary: acc c)
  case Nil
  then show ?case by simp
next
  case (Cons x xs)
  show ?case
  proof (cases "n \<le> c")
    case True
    with Cons.prems show ?thesis by simp
  next
    case False
    hence step: "n - c = Suc (n - Suc c)" by simp
    with Cons.prems have len: "n - Suc c < length xs" by simp
    have le: "Suc c \<le> n" using False by simp
    have "collectBlobs (iterOf xs rest) (of_nat n) (acc @ [blobEntry x]) (Suc c)
          = Inr ((acc @ [blobEntry x]) @ map blobEntry (take (n - Suc c) xs))"
      by (rule Cons.IH[OF le len])
    with False show ?thesis by (simp add: step)
  qed
qed

lemma collectBlobs_short:
  "c \<le> n \<Longrightarrow> length xs \<le> n - c \<Longrightarrow>
   collectBlobs (iterOf xs End) (of_nat n) acc c = Inr (acc @ map blobEntry xs)"
proof (induction xs arbitrary: acc c)
  case Nil
  then show ?case by simp
next
  case (Cons x xs)
  hence lt: "c < n" by auto
  hence len: "length xs \<le> n - Suc c" using Cons.prems by simp
  have le: "Suc c \<le> n" using lt by simp
  have "collectBlobs (iterOf xs End) (of_nat n) (acc @ [blobEntry x]) (Suc c)
        = Inr ((acc @ [blobEntry x]) @ map blobEntry xs)"
    by (rule Cons.IH[OF le len])
  with lt show ?case by simp
qed

lemma collectBlobs_take:
  assumes "n < length xs \<or> rest = End"
  shows "collectBlobs (iterOf xs rest) (of_nat n) [] 0 = Inr (map blobEntry (take n xs))"
proof (cases "n < length xs")
  case True
  with collectBlobs_stops[of 0 n xs rest "[]"] show ?thesis by simp
next
  case False
  with assms have "rest = End" "length xs \<le> n - 0" by auto
  with collectBlobs_short[of 0 n xs "[]"] show ?thesis by simp
qed

lemma handleListBlobs_run:
  assumes "arg_accountName a = Some accountName" and "accountName \<noteq> []"
    and "arg_containerName a = Some containerName" and "containerName \<noteq> []"
  shows "fst (handleListBlobs env a w) =
           (case collectBlobs
                   (fst (listBlobsFlat env (getBlobServiceClient accountName (arg_accountKey a))
                           containerName (strOr (arg_prefix a) []) w))
                   (numOr (arg_maxResults a) 100) [] 0 of
              Inl e \<Rightarrow> Inl (''Failed to list blobs: '' @ e)
            | Inr blobs \<Rightarrow> Inr (textResponse (stringify env (JArr blobs)) None))"
  using assms
  by (simp add: handleListBlobs_def Let_def split: prod.split sum.split)

lemma handleListContainers_run:
  assumes "arg_accountName a = Some accountName" and "accountName \<noteq> []"
  shows "fst (handleListContainers env a w) =
           (case collectContainers
                   (fst (listContainers env (getBlobServiceClient accountName (arg_accountKey a)) w))
                   [] of
              Inl e \<Rightarrow> Inl (''Failed to list containers: '' @ e)
            | Inr containers \<Rightarrow> Inr (textResponse (stringify env (JArr containers)) None))"
  using assms
  by (simp add: handleListContainers_def Let_def split: prod.split sum.split)

lemma whole_cap:
  "(case m of None \<Rightarrow> 100 | Some x \<Rightarrow> x) = (of_nat cap :: number) \<Longrightarrow> 0 < cap \<Longrightarrow>
   numOr m 100 = of_nat cap"
  by (auto simp: numOr_def split: option.splits)

lemma handleListObjects_run:
  assumes "storage tools = Some client"
    and "arg_bucketName g = Some bucketName" and "bucketName \<noteq> []"
    and "fst (getFiles env client bucketName
                (case arg_prefix g of None \<Rightarrow> [] | Some p \<Rightarrow> p)
                (case arg_maxResults g of None \<Rightarrow> 100 | Some m \<Rightarrow> if m = 0 then 100 else m) w)
         = Inr files"
  shows "fst (handleListObjects env tools g w)
         = Inr (textResponse (stringify env (JArr (map fileEntry files))) None)"
proof -
  have p: "strOr (arg_prefix g) [] = (case arg_prefix g of None \<Rightarrow> [] | Some p \<Rightarrow> p)"
    by (simp add: strOr_def split: option.split)
  have m: "numOr (arg_maxResults g) 100
           = (case arg_maxResults g of None \<Rightarrow> 100 | Some m \<Rightarrow> if m = 0 then 100 else m)"
    by (simp add: numOr_def)
  from assms show ?thesis
    by (cases "getFiles env client bucketName
                 (case arg_prefix g of None \<Rightarrow> [] | Some p \<Rightarrow> p)
                 (case arg_maxResults g of None \<Rightarrow> 100 | Some m \<Rightarrow> if m = 0 then 100 else m) w")
       (simp add: handleListObjects_def Let_def p m)
qed

lemma handleListBuckets_run:
  assumes "arg_projectId g = None" and "storage tools = Some client"
    and "fst (getBuckets env client w) = Inr buckets"
  shows "fst (handleListBuckets env tools g w)
         = Inr (textResponse (stringify env (JArr (map bucketEntry buckets))) None)"
  using assms
  by (cases "getBuckets env client w") (simp add: handleListBuckets_def truthy_def)

text \<open>
  Claim C5, as amended. \<open>azure_list_blobs\<close> with a \<open>maxResults\<close> that is a positive whole
  number (100 when it is absent) returns the first \<open>maxResults\<close> entries of the
  enumeration, in its order: when the enumeration holds more items than the cap the loop
  stops there, and whatever the enumeration would do afterwards, an error included, has no
  effect; when it ends earlier all its entries are returned. Whatever the enumeration, a
  response holds at most \<open>maxResults\<close> entries. \<open>azure_list_containers\<close> takes no
  \<open>maxResults\<close> and returns one entry for every container enumerated. \<open>gcp_list_objects\<close>
  hands the prefix and \<open>maxResults\<close> (100 when it is absent or 0) to the storage client and
  returns one entry for every file the client gives back; \<open>gcp_list_buckets\<close>, called
  without a \<open>projectId\<close>, returns one entry for every bucket.
\<close>

theorem blob_listing_capped_container_listing_not:
  assumes "arg_accountName a = Some accountName" and "accountName \<noteq> []"
  shows
    "(arg_containerName a = Some containerName \<and> containerName \<noteq> []
        \<and> (case arg_maxResults a of None \<Rightarrow> 100 | Some m \<Rightarrow> m) = of_nat cap \<and> 0 < cap
        \<and> fst (listBlobsFlat env (getBlobServiceClient accountName (arg_accountKey a))
                 containerName (strOr (arg_prefix a) []) w) = iterOf blobs rest
        \<and> (cap < length blobs \<or> rest = End)
      \<longrightarrow> fst (handleListBlobs env a w)
            = Inr (textResponse
                     (stringify env (JArr (map blobEntry (take cap blobs)))) None))
     \<and> (arg_containerName a = Some containerName \<and> containerName \<noteq> []
          \<and> (case arg_maxResults a of None \<Rightarrow> 100 | Some m \<Rightarrow> m) = of_nat cap \<and> 0 < cap
        \<longrightarrow> (\<forall>r. fst (handleListBlobs env a w) = Inr r
               \<longrightarrow> (\<exists>entries. r = textResponse (stringify env (JArr entries)) None
                              \<and> length entries \<le> cap)))
     \<and> (fst (listContainers env (getBlobServiceClient accountName (arg_accountKey a)) w)
          = iterOf containers End
        \<longrightarrow> fst (handleListContainers env a w)
              = Inr (textResponse
                       (stringify env (JArr (map containerEntry containers))) None))
     \<and> (storage tools = Some client \<and> arg_bucketName g = Some bucketName \<and> bucketName \<noteq> []
          \<and> fst (getFiles env client bucketName
                    (case arg_prefix g of None \<Rightarrow> [] | Some p \<Rightarrow> p)
                    (case arg_maxResults g of
                       None \<Rightarrow> 100 | Some m \<Rightarrow> if m = 0 then 100 else m) w)
              = Inr files
        \<longrightarrow> fst (handleListObjects env tools g w)
              = Inr (textResponse (stringify env (JArr (map fileEntry files))) None))
     \<and> (arg_projectId g = None \<and> storage tools = Some client
          \<and> fst (getBuckets env client w) = Inr buckets
        \<longrightarrow> fst (handleListBuckets env tools g w)
              = Inr (textResponse (stringify env (JArr (map bucketEntry buckets))) None))"
proof (intro conjI impI allI)
  assume h: "arg_containerName a = Some containerName \<and> containerName \<noteq> []
        \<and> (case arg_maxResults a of None \<Rightarrow> 100 | Some m \<Rightarrow> m) = of_nat cap \<and> 0 < cap
        \<and> fst (listBlobsFlat env (getBlobServiceClient accountName (arg_accountKey a))
                 containerName (strOr (arg_prefix a) []) w) = iterOf blobs rest
        \<and> (cap < length blobs \<or> rest = End)"
  hence cap: "numOr (arg_maxResults a) 100 = of_nat cap" by (intro whole_cap) auto
  from h have "collectBlobs (iterOf blobs rest) (of_nat cap) [] 0
               = Inr (map blobEntry (take cap blobs))"
    by (intro collectBlobs_take) auto
  with h cap show "fst (handleListBlobs env a w)
            = Inr (textResponse
                     (stringify env (JArr (map blobEntry (take cap blobs)))) None)"
    by (simp add: handleListBlobs_run[OF assms, of containerName])
next
  fix r
  assume h: "arg_containerName a = Some containerName \<and> containerName \<noteq> []
          \<and> (case arg_maxResults a of None \<Rightarrow> 100 | Some m \<Rightarrow> m) = of_nat cap \<and> 0 < cap"
    and r: "fst (handleListBlobs env a w) = Inr r"
  from h have cap: "numOr (arg_maxResults a) 100 = of_nat cap" by (intro whole_cap) auto
  let ?it = "fst (listBlobsFlat env (getBlobServiceClient accountName (arg_accountKey a))
                    containerName (strOr (arg_prefix a) []) w)"
  from r h cap obtain entries where e: "collectBlobs ?it (of_nat cap) [] 0 = Inr entries"
    and r': "r = textResponse (stringify env (JArr entries)) None"
    by (auto simp: handleListBlobs_run[OF assms, of containerName] split: sum.splits)
  from collectBlobs_bound[OF e] have "length entries \<le> cap" by simp
  with r' show "\<exists>entries. r = textResponse (stringify env (JArr entries)) None
                         \<and> length entries \<le> cap" by blast
next
  assume "fst (listContainers env (getBlobServiceClient accountName (arg_accountKey a)) w)
          = iterOf containers End"
  thus "fst (handleListContainers env a w)
              = Inr (textResponse
                       (stringify env (JArr (map containerEntry containers))) None)"
    by (simp add: handleListContainers_run[OF assms] collectContainers_all)
next
  assume "storage tools = Some client \<and> arg_bucketName g = Some bucketName \<and> bucketName \<noteq> []
          \<and> fst (getFiles env client bucketName
                    (case arg_prefix g of None \<Rightarrow> [] | Some p \<Rightarrow> p)
                    (case arg_maxResults g of
                       None \<Rightarrow> 100 | Some m \<Rightarrow> if m = 0 then 100 else m) w)
              = Inr files"
  thus "fst (handleListObjects env tools g w)
              = Inr (textResponse (stringify env (JArr (map fileEntry files))) None)"
    by (intro handleListObjects_run) auto
next
  assume "arg_projectId g = None \<and> storage tools = Some client
          \<and> fst (getBuckets env client w) = Inr buckets"
  thus "fst (handleListBuckets env tools g w)
              = Inr (textResponse (stringify env (JArr (map bucketEntry buckets))) None)"
    by (intro handleListBuckets_run) auto
qed

text \<open>
  The theorem at a container of 101 blobs whose enumeration would fail after them, with
  the default cap: 100 entries and no failure; at an account of two containers; and at a
  bucket for which the storage client gives back no file.
\<close>

theorem blob_listing_capped_container_listing_not_witness:
  "fst (handleListBlobs
          (storageEnv (iterOf [demoContainer, demoContainer] End)
                      (iterOf (replicate 101 (demoBlob ''b'')) (Throw ''network down'')))
          (noArgs\<lparr>arg_accountName := Some ''acct'', arg_containerName := Some ''c''\<rparr>) [])
     = Inr (textResponse (renderJson (JArr (replicate 100 (blobEntry (demoBlob ''b''))))) None)
   \<and> fst (handleListContainers
            (storageEnv (iterOf [demoContainer, demoContainer] End)
                        (iterOf (replicate 101 (demoBlob ''b'')) (Throw ''network down'')))
            (noArgs\<lparr>arg_accountName := Some ''acct'', arg_containerName := Some ''c''\<rparr>) [])
       = Inr (textResponse
                (renderJson (JArr [containerEntry demoContainer, containerEntry demoContainer]))
                None)
   \<and> fst (handleListObjects
            (storageEnv (iterOf [demoContainer, demoContainer] End)
                        (iterOf (replicate 101 (demoBlob ''b'')) (Throw ''network down'')))
            \<lparr>storage = Some (Storage None)\<rparr>
            (noArgs\<lparr>arg_bucketName := Some ''bkt''\<rparr>) [])
       = Inr (textResponse (renderJson (JArr [])) None)"
  using blob_listing_capped_container_listing_not
          [of "noArgs\<lparr>arg_accountName := Some ''acct'', arg_containerName := Some ''c''\<rparr>"
              "''acct''" "''c''" 100
              "storageEnv (iterOf [demoContainer, demoContainer] End)
                          (iterOf (replicate 101 (demoBlob ''b'')) (Throw ''network down''))"
              "[]" "replicate 101 (demoBlob ''b'')" "Throw ''network down''"
              "[demoContainer, demoContainer]"
              "\<lparr>storage = Some (Storage None)\<rparr>" "Storage None"
              "noArgs\<lparr>arg_bucketName := Some ''bkt''\<rparr>" "''bkt''" "[]" "[]"]
  by (simp add: noArgs_def storageEnv_def demoEnv_def del: renderJson.simps)

text \<open>
  Claim C5 as it was stated covers every listing operation and every \<open>maxResults\<close>. The
  listing of an account of 101 containers returns 101 entries, above the default cap of
  100; and the listing of a container of four blobs with \<open>maxResults\<close> 2.5 returns three.
\<close>

theorem container_listing_counterexample:
  "collectContainers (iterOf (replicate 101 demoContainer) End) []
     = Inr (replicate 101 (containerEntry demoContainer))
   \<and> fst (handleListContainers
            (storageEnv (iterOf (replicate 101 demoContainer) End) End)
            (noArgs\<lparr>arg_accountName := Some ''acct''\<rparr>) [])
       = Inr (textResponse
                (renderJson (JArr (replicate 101 (containerEntry demoContainer)))) None)
   \<and> length (replicate 101 (containerEntry demoContainer)) = 101
   \<and> \<not> length (replicate 101 (containerEntry demoContainer)) \<le> 100
   \<and> fst (handleListBlobs
            (storageEnv End
               (iterOf [demoBlob ''a'', demoBlob ''b'', demoBlob ''c'', demoBlob ''d''] End))
            (noArgs\<lparr>arg_accountName := Some ''acct'', arg_containerName := Some ''c'',
                    arg_maxResults := Some (5 / 2)\<rparr>) [])
       = Inr (textResponse
                (renderJson (JArr [blobEntry (demoBlob ''a''), blobEntry (demoBlob ''b''),
                                   blobEntry (demoBlob ''c'')])) None)"
  by (simp add: collectContainers_all handleListContainers_def handleListBlobs_def numOr_def
        strOr_def noArgs_def storageEnv_def demoEnv_def Let_def del: renderJson.simps)

text \<open>The steps of \<open>gcp_modify_gce_instance\<close>.\<close>

declare showNat.simps [simp del]

lemma operationTexts_stepText:
  "operationTexts k rs =
     map (\<lambda>i. ''Operation '' @ showNat (k + i + 1) @ '':'' @ [CHR 0x0A] @ stdout (rs ! i)
               @ [CHR 0x0A] @ stderr (rs ! i)) [0..<length rs]"
proof (induction rs arbitrary: k)
  case Nil
  then show ?case by simp
next
  case (Cons r rs)
  have "[0..<length (r # rs)] = 0 # map Suc [0..<length rs]"
    by (simp add: upt_conv_Cons map_Suc_upt del: upt_Suc)
  then show ?case by (simp add: Cons.IH o_def del: upt_Suc)
qed

lemma operationTexts_zero:
  "operationTexts 0 rs = map (stepText rs) [0..<length rs]"
  by (simp add: operationTexts_stepText stepText_def)

lemma executeGcpCommand_valid:
  "valid (validateGcpCommand c) \<Longrightarrow> \<exists>r w'. executeGcpCommand env c p w = (Inr r, w')"
  by (simp add: executeGcpCommand_def Let_def split: prod.split)

lemma runSteps_valid:
  "(\<forall>c\<in>set cs. valid (validateGcpCommand c)) \<Longrightarrow>
   \<exists>rs w'. runSteps env cs p w = (Inr rs, w') \<and> length rs = length cs"
proof (induction cs arbitrary: w)
  case Nil
  then show ?case by simp
next
  case (Cons c cs)
  then obtain r w1 where r: "executeGcpCommand env c p w = (Inr r, w1)"
    using executeGcpCommand_valid[of c env p w] by auto
  from Cons obtain rs w2 where rs: "runSteps env cs p w1 = (Inr rs, w2)" "length rs = length cs"
    by fastforce
  from r rs show ?case by simp
qed

lemma modify_refines:
  assumes "arg_instance a = Some instance" and "instance \<noteq> []"
    and "arg_zone a = Some zone" and "zone \<noteq> []"
    and "modifySteps instance zone a \<noteq> []"
  shows "handleModifyGceInstance env a w =
           (case runSteps env (modifySteps instance zone a) (arg_projectId a) w of
              (Inl e, w') \<Rightarrow> (Inl e, w')
            | (Inr results, w') \<Rightarrow> (Inr (modifyResponse results), w'))"
proof (cases "truthy (arg_machineType a)")
  case True
  then obtain m where m: "arg_machineType a = Some m" "m \<noteq> []"
    by (auto simp: truthy_def split: option.splits)
  show ?thesis
  proof (cases "arg_labels a")
    case None
    with m assms show ?thesis
      by (auto simp: handleModifyGceInstance_def modifySteps_def truthy_def Let_def
            textResponse_def modifyResponse_def operationTexts_zero list_ex_iff
            simp del: operationTexts.simps split: prod.splits sum.splits)
  next
    case (Some ls)
    with m assms show ?thesis
      by (auto simp: handleModifyGceInstance_def modifySteps_def truthy_def Let_def
            textResponse_def modifyResponse_def operationTexts_zero list_ex_iff
            simp del: operationTexts.simps split: prod.splits sum.splits)
  qed
next
  case False
  hence m: "arg_machineType a = None \<or> arg_machineType a = Some []"
    by (auto simp: truthy_def split: option.splits)
  with assms obtain ls where ls: "arg_labels a = Some ls"
    by (cases "arg_labels a") (auto simp: modifySteps_def)
  from m ls assms show ?thesis
    by (auto simp: handleModifyGceInstance_def modifySteps_def truthy_def Let_def
          textResponse_def modifyResponse_def operationTexts_zero list_ex_iff
          simp del: operationTexts.simps split: prod.splits sum.splits)
qed


text \<open>
  Claim C6, as amended. With an instance, a zone and at least one step,
  \<open>gcp_modify_gce_instance\<close> sends the commands of its steps through the executor one
  after the other, each in the world the previous one left, and undoes nothing. When the
  executor returns a result for every step, the handler answers with one labelled text
  per step, \<open>Operation 1:\<close>, \<open>Operation 2:\<close>, and with \<open>isError\<close> true exactly when
  some result has a non-zero exit code; this is the case whenever every command passes the
  validator. When the validator rejects the command of a step, the handler raises that
  rejection instead, in the world the earlier steps have left.
\<close>

theorem modify_instance_runs_steps_in_sequence:
  assumes "arg_instance a = Some instance" and "instance \<noteq> []"
    and "arg_zone a = Some zone" and "zone \<noteq> []"
    and "modifySteps instance zone a \<noteq> []"
  shows "handleModifyGceInstance env a w =
           (case runSteps env (modifySteps instance zone a) (arg_projectId a) w of
              (Inl e, w') \<Rightarrow> (Inl e, w')
            | (Inr results, w') \<Rightarrow> (Inr (modifyResponse results), w'))
         \<and> ((\<forall>c\<in>set (modifySteps instance zone a). valid (validateGcpCommand c))
              \<longrightarrow> (\<exists>results w'.
                     runSteps env (modifySteps instance zone a) (arg_projectId a) w
                       = (Inr results, w')
                     \<and> length results = length (modifySteps instance zone a)))"
proof (intro conjI impI)
  show "handleModifyGceInstance env a w =
           (case runSteps env (modifySteps instance zone a) (arg_projectId a) w of
              (Inl e, w') \<Rightarrow> (Inl e, w')
            | (Inr results, w') \<Rightarrow> (Inr (modifyResponse results), w'))"
    by (rule modify_refines[OF assms])
next
  assume "\<forall>c\<in>set (modifySteps instance zone a). valid (validateGcpCommand c)"
  thus "\<exists>results w'.
          runSteps env (modifySteps instance zone a) (arg_projectId a) w = (Inr results, w')
          \<and> length results = length (modifySteps instance zone a)"
    by (rule runSteps_valid)
qed

lemmas modify_eval = handleModifyGceInstance_def modifySteps_def labelsStr_def
  demoModifyArgs_def labelsDenied_def scriptedEnv_def showNat.simps digitChar_def

text \<open>
  The theorem at a change of machine type that succeeds followed by an update of labels
  that the process refuses: two labelled texts, \<open>isError\<close> true, and both invocations
  in the recording world, the first one not undone.
\<close>

theorem modify_instance_runs_steps_in_sequence_witness:
  "modifySteps ''vm1'' ''z1'' (demoModifyArgs [(''env'', ''prod''), (''team'', ''a'')])
     = [''compute instances set-machine-type vm1 --zone=z1 --machine-type=e2-small'',
        ''compute instances add-labels vm1 --zone=z1 --labels=env=prod,team=a'']
   \<and> handleModifyGceInstance (scriptedEnv labelsDenied)
         (demoModifyArgs [(''env'', ''prod''), (''team'', ''a'')]) []
       = (Inr (textResponse
                 (''Operation 1:'' @ [CHR 0x0A] @ ''Updated [vm1].'' @ [CHR 0x0A]
                  @ [CHR 0x0A, CHR 0x0A]
                  @ ''Operation 2:'' @ [CHR 0x0A] @ [CHR 0x0A] @ ''ERROR: permission denied'')
                 (Some True)),
          [''gcloud compute instances set-machine-type vm1 --zone=z1 --machine-type=e2-small'',
           ''gcloud compute instances add-labels vm1 --zone=z1 --labels=env=prod,team=a''])"
  using modify_instance_runs_steps_in_sequence
          [of "demoModifyArgs [(''env'', ''prod''), (''team'', ''a'')]" "''vm1''" "''z1''"
              "scriptedEnv labelsDenied" "[]"]
  by (simp add: modify_eval tool_eval str_eval policy_eval exec_eval truthy_def)

text \<open>
  Claim C6 as it was stated, at the label \<open>eval\<close> with the value \<open>--format\<close>: the first
  step runs and exits with code 0, the command of the second step is rejected by the
  validator, and the response has \<open>isError\<close> true with the reason of the rejection as
  its only text, although no step has a non-zero exit code.
\<close>

theorem modify_instance_rejected_step_counterexample:
  "fst (executeGcpCommand (demoEnv (Resolved (Some ''Updated [vm1].'') None))
          ''compute instances set-machine-type vm1 --zone=z1 --machine-type=e2-small'' None [])
     = Inr \<lparr>stdout = ''Updated [vm1].'', stderr = [], exitCode = Num 0\<rparr>
   \<and> GcpTools_handleTool (demoEnv (Resolved (Some ''Updated [vm1].'') None))
         \<lparr>storage = None\<rparr> ''gcp_modify_gce_instance''
         (demoModifyArgs [(''eval'', ''--format'')]) []
       = (errorResponse ''Potentially dangerous format evaluation detected'',
          [''gcloud compute instances set-machine-type vm1 --zone=z1 --machine-type=e2-small''])
   \<and> isError (errorResponse ''Potentially dangerous format evaluation detected'') = Some True"
  by (simp add: modify_eval tool_eval str_eval policy_eval exec_eval truthy_def)

end
